theory Spec2Isabelle
  imports
    Complex_Main
    "HOL-Library.Char_ord"
    "HOL-Library.List_Lexorder"
    "HOL-Library.AList"
    "HOL-Library.Stream"
    "HOL-Library.Word"
begin

unbundle bit_operations_syntax

section \<open>Data model\<close>

text \<open>
  Byte strings are \<^typ>\<open>string\<close>; \<open>std::string::operator<\<close> is the lexicographic order on
  bytes, which is the order the two imported library theories put on \<^typ>\<open>string\<close>.
  A \<open>double\<close> score is modelled as a \<^typ>\<open>real\<close> (exact arithmetic); every concrete input
  below uses small integer scores, on which \<open>double\<close> arithmetic is exact.
  The \<open>int64_t\<close> millisecond stamps are \<^typ>\<open>int\<close>; where the source adds or multiplies
  them the result is taken back into the 64-bit range (\<open>wrap_int64\<close>), as the compiled
  code does on overflow.
  A \<open>std::unordered_map\<close> is an association list with unique keys; the list order stands
  for the (unspecified) iteration order of the container.
\<close>

datatype error =
    NullDeref          \<comment> \<open>a null pointer is dereferenced\<close>
  | BadIndex           \<comment> \<open>\<open>operator[]\<close> beyond the end of a vector\<close>
  | Dangling           \<comment> \<open>a pointer to a deleted node is dereferenced\<close>
  | NoReturnValue      \<comment> \<open>control flows off the end of a value-returning function\<close>
  | OutOfRange         \<comment> \<open>\<open>std::out_of_range\<close>\<close>
  | InvalidArgument    \<comment> \<open>\<open>std::invalid_argument\<close>\<close>
  | LengthError        \<comment> \<open>\<open>std::length_error\<close>\<close>

type_synonym addr = nat

record SkiplistNode =
  score :: real
  member :: string
  forward :: "addr option list"

text \<open>
  The nodes of one skiplist live in an arena: \<open>new\<close> appends a cell, \<open>delete\<close> empties it,
  a pointer is an optional index (\<open>None\<close> is \<open>nullptr\<close>).
\<close>

record Skiplist =
  nodes :: "SkiplistNode option list"
  head_m :: addr
  level_m :: int
  length_m :: nat

record ValueRecord =
  "value" :: string
  expire_at_ms :: int

record HashRecord =
  fields_m :: "(string \<times> string) list"
  h_expire_at_ms :: int

record ZSetRecord =
  use_skiplist :: bool
  items :: "(real \<times> string) list"
  sl :: "Skiplist option"
  member_to_score :: "(string \<times> real) list"
  z_expire_at_ms :: int

record KeyValueStore =
  map_m :: "(string \<times> ValueRecord) list"
  hmap_m :: "(string \<times> HashRecord) list"
  zmap_m :: "(string \<times> ZSetRecord) list"
  expire_index_m :: "(string \<times> int) list"

section \<open>Results of a call\<close>

text \<open>
  A call either returns a value, or runs into undefined behaviour or an exception
  (\<open>Inl\<close> with the \<^typ>\<open>error\<close>), or never returns (\<open>None\<close>, only possible in the
  pointer-chasing loops of the skiplist).
\<close>

type_synonym 'a res = "error + 'a"
type_synonym 'a exec = "(error + 'a) option"

definition bind_res :: "'a res \<Rightarrow> ('a \<Rightarrow> 'b res) \<Rightarrow> 'b res" where
  "bind_res r f = (case r of Inl e \<Rightarrow> Inl e | Inr v \<Rightarrow> f v)"

definition ret :: "'a \<Rightarrow> 'a exec" where
  "ret v = Some (Inr v)"

definition fault :: "error \<Rightarrow> 'a exec" where
  "fault e = Some (Inl e)"

definition bind_exec :: "'a exec \<Rightarrow> ('a \<Rightarrow> 'b exec) \<Rightarrow> 'b exec" where
  "bind_exec r f = (case r of None \<Rightarrow> None | Some (Inl e) \<Rightarrow> Some (Inl e) | Some (Inr v) \<Rightarrow> f v)"

definition lift_res :: "'a res \<Rightarrow> 'a exec" where
  "lift_res r = Some r"

text \<open>\<open>std::vector::operator[]\<close>: reading or writing beyond the end is undefined.\<close>

definition at_index :: "'a list \<Rightarrow> nat \<Rightarrow> 'a res" where
  "at_index xs i = (if i < length xs then Inr (xs ! i) else Inl BadIndex)"

definition set_index :: "'a list \<Rightarrow> nat \<Rightarrow> 'a \<Rightarrow> 'a list res" where
  "set_index xs i v = (if i < length xs then Inr (xs[i := v]) else Inl BadIndex)"

text \<open>A \<open>for\<close> loop over a fixed index range whose body may fail.\<close>

fun for_each :: "('i \<Rightarrow> 's \<Rightarrow> 's res) \<Rightarrow> 'i list \<Rightarrow> 's \<Rightarrow> 's res" where
  "for_each body [] s = Inr s"
| "for_each body (i # is) s =
     (case body i s of Inl e \<Rightarrow> Inl e | Inr s' \<Rightarrow> for_each body is s')"

text \<open>
  \<open>std::rand()\<close>: the generator's future outputs are a stream; a call takes the head.
\<close>

type_synonym rand_state = "int stream"

definition rand :: "rand_state \<Rightarrow> int \<times> rand_state" where
  "rand rs = (shd rs, stl rs)"

section \<open>Skiplist\<close>

definition kDelta :: real where
  "kDelta = 0.000001"

definition kMaxLevel :: int where
  "kMaxLevel = 32"

definition kProbability :: real where
  "kProbability = 0.25"

text \<open>
  \<open>abs\<close> on a \<open>double\<close> is the floating-point absolute value (the overloads that
  \<open>stdlib.h\<close> brings into scope in C++17).
\<close>

definition comparedLess :: "real \<Rightarrow> string \<Rightarrow> real \<Rightarrow> string \<Rightarrow> bool" where
  "comparedLess sc1 m1 sc2 m2 = (if \<bar>sc1 - sc2\<bar> \<le> kDelta then m1 < m2 else sc1 < sc2)"

definition new_node :: "int \<Rightarrow> real \<Rightarrow> string \<Rightarrow> SkiplistNode" where
  "new_node lvl sc mem = \<lparr>score = sc, member = mem, forward = replicate (nat lvl) None\<rparr>"

definition new_Skiplist :: Skiplist where
  "new_Skiplist = \<lparr>nodes = [Some (new_node kMaxLevel 0 [])], head_m = 0, level_m = 1, length_m = 0\<rparr>"

text \<open>\<open>p->\<close>: dereferencing a pointer.\<close>

definition node_at :: "Skiplist \<Rightarrow> addr option \<Rightarrow> SkiplistNode res" where
  "node_at s p =
     (case p of
        None \<Rightarrow> Inl NullDeref
      | Some a \<Rightarrow>
          (if a < length (nodes s)
           then (case nodes s ! a of None \<Rightarrow> Inl Dangling | Some n \<Rightarrow> Inr n)
           else Inl Dangling))"

text \<open>\<open>p->forward[i]\<close> as a read, and \<open>p->forward[i] = v\<close> as a write.\<close>

definition get_forward :: "Skiplist \<Rightarrow> addr option \<Rightarrow> nat \<Rightarrow> addr option res" where
  "get_forward s p i = bind_res (node_at s p) (\<lambda>n. at_index (forward n) i)"

definition set_forward :: "Skiplist \<Rightarrow> addr option \<Rightarrow> nat \<Rightarrow> addr option \<Rightarrow> Skiplist res" where
  "set_forward s p i v =
     bind_res (node_at s p) (\<lambda>n.
     bind_res (set_index (forward n) i v) (\<lambda>fw.
       (case p of
          None \<Rightarrow> Inl NullDeref
        | Some a \<Rightarrow> Inr (s\<lparr>nodes := (nodes s)[a := Some (n\<lparr>forward := fw\<rparr>)]\<rparr>))))"

text \<open>\<open>new SkiplistNode(...)\<close> and \<open>delete p\<close> (deleting \<open>nullptr\<close> does nothing).\<close>

definition alloc_node :: "Skiplist \<Rightarrow> SkiplistNode \<Rightarrow> addr \<times> Skiplist" where
  "alloc_node s n = (length (nodes s), s\<lparr>nodes := nodes s @ [Some n]\<rparr>)"

definition delete_node :: "Skiplist \<Rightarrow> addr option \<Rightarrow> Skiplist" where
  "delete_node s p =
     (case p of None \<Rightarrow> s | Some a \<Rightarrow> s\<lparr>nodes := (nodes s)[a := None]\<rparr>)"

subsection \<open>randomLevel\<close>

definition threshold :: int where
  "threshold = \<lfloor>kProbability * 0xFFFF\<rfloor>"

function randomLevel_loop :: "int \<Rightarrow> int \<Rightarrow> rand_state \<Rightarrow> int \<times> rand_state" where
  "randomLevel_loop lvl r rs =
     (if r < threshold \<and> lvl < kMaxLevel
      then randomLevel_loop (lvl + 1) (fst (rand rs) AND 0xFFFF) (snd (rand rs))
      else (lvl, rs))"
  by pat_completeness auto
termination
  by (relation "measure (\<lambda>(lvl, r, rs). nat (kMaxLevel - lvl))") auto

declare randomLevel_loop.simps [simp del]

definition randomLevel :: "rand_state \<Rightarrow> int \<times> rand_state" where
  "randomLevel rs = randomLevel_loop 1 (fst (rand rs) AND 0xFFFF) (snd (rand rs))"

subsection \<open>The search shared by insert and erase\<close>

text \<open>
  The inner \<open>while\<close> on one level: advance \<open>x\<close> while its successor on level \<open>i\<close> exists
  and is less than \<open>(sc, m)\<close>. On a cyclic chain the loop never ends.
\<close>

partial_function (option) advance ::
  "Skiplist \<Rightarrow> nat \<Rightarrow> real \<Rightarrow> string \<Rightarrow> addr \<Rightarrow> addr exec" where
  "advance s i sc m x =
     (case get_forward s (Some x) i of
        Inl e \<Rightarrow> Some (Inl e)
      | Inr None \<Rightarrow> Some (Inr x)
      | Inr (Some y) \<Rightarrow>
          (case node_at s (Some y) of
             Inl e \<Rightarrow> Some (Inl e)
           | Inr ny \<Rightarrow>
               if comparedLess (score ny) (member ny) sc m
               then advance s i sc m y
               else Some (Inr x)))"

text \<open>
  The outer \<open>for (i = level_ - 1; i >= 0; --i)\<close>; the first argument counts the levels
  still to visit, so the level visited is one less.
\<close>

fun search_levels ::
  "nat \<Rightarrow> Skiplist \<Rightarrow> real \<Rightarrow> string \<Rightarrow> addr \<Rightarrow> addr option list \<Rightarrow> (addr \<times> addr option list) exec" where
  "search_levels 0 s sc m x update = ret (x, update)"
| "search_levels (Suc i) s sc m x update =
     (case advance s i sc m x of
        None \<Rightarrow> None
      | Some (Inl e) \<Rightarrow> Some (Inl e)
      | Some (Inr x') \<Rightarrow>
          (case set_index update i (Some x') of
             Inl e \<Rightarrow> Some (Inl e)
           | Inr update' \<Rightarrow> search_levels i s sc m x' update'))"

definition find_position :: "Skiplist \<Rightarrow> real \<Rightarrow> string \<Rightarrow> (addr \<times> addr option list) exec" where
  "find_position s sc m =
     search_levels (nat (level_m s)) s sc m (head_m s) (replicate (nat kMaxLevel) None)"

subsection \<open>insert\<close>

text \<open>The body of \<open>for (i = 0; i < lvl; ++i)\<close> that links the new node on level \<open>i\<close>.\<close>

definition link_level :: "addr \<Rightarrow> addr option list \<Rightarrow> nat \<Rightarrow> Skiplist \<Rightarrow> Skiplist res" where
  "link_level node update i s =
     bind_res (at_index update i) (\<lambda>u.
     bind_res (get_forward s u i) (\<lambda>nxt.
     bind_res (set_forward s (Some node) i nxt) (\<lambda>s1.
       set_forward s1 u i (Some node))))"

text \<open>The body of \<open>for (i = level_; i < lvl; ++i) update[i] = head_\<close>.\<close>

definition point_at_head :: "addr \<Rightarrow> nat \<Rightarrow> addr option list \<Rightarrow> addr option list res" where
  "point_at_head h i update = set_index update i (Some h)"

definition insert_sl ::
  "Skiplist \<Rightarrow> real \<Rightarrow> string \<Rightarrow> rand_state \<Rightarrow> (Skiplist \<times> rand_state \<times> bool) exec" where
  "insert_sl s sc m rs =
     bind_exec (find_position s sc m) (\<lambda>(x, update).
     bind_exec (lift_res (get_forward s (Some x) 0)) (\<lambda>x0.
     bind_exec (lift_res
       (case x0 of
          None \<Rightarrow> Inr False
        | Some a \<Rightarrow> bind_res (node_at s x0) (\<lambda>n. Inr (\<bar>score n - sc\<bar> \<le> kDelta \<and> member n = m)))) (\<lambda>found.
       if found then ret (s, rs, False)
       else
         let (lvl, rs') = randomLevel rs in
         bind_exec (lift_res
           (if lvl > level_m s
            then (let s1 = s\<lparr>level_m := lvl\<rparr> in
                  bind_res (for_each (point_at_head (head_m s1)) [nat (level_m s1)..<nat lvl] update)
                    (\<lambda>update'. Inr (s1, update')))
            else Inr (s, update))) (\<lambda>(s1, update').
         let (node, s2) = alloc_node s1 (new_node lvl sc m) in
         bind_exec (lift_res (for_each (link_level node update') [0..<nat lvl] s2)) (\<lambda>s3.
           ret (s3\<lparr>length_m := (length_m s3 + 1) mod 2 ^ 64\<rparr>, rs', True))))))"

subsection \<open>erase\<close>

text \<open>The body of \<open>for (i = 0; i < level_; ++i)\<close> that unlinks \<open>x\<close> on level \<open>i\<close>.\<close>

definition unlink_level :: "addr option \<Rightarrow> addr option list \<Rightarrow> nat \<Rightarrow> Skiplist \<Rightarrow> Skiplist res" where
  "unlink_level x update i s =
     bind_res (at_index update i) (\<lambda>u.
     bind_res (get_forward s u i) (\<lambda>nxt.
       if nxt = x
       then bind_res (get_forward s x i) (\<lambda>after. set_forward s u i after)
       else Inr s))"

text \<open>\<open>while (level_ > 1 && head_->forward[level_ - 1] == nullptr) --level_\<close>.\<close>

function shrink_level :: "Skiplist \<Rightarrow> Skiplist res" where
  "shrink_level s =
     (if level_m s > 1
      then (case get_forward s (Some (head_m s)) (nat (level_m s - 1)) of
              Inl e \<Rightarrow> Inl e
            | Inr None \<Rightarrow> shrink_level (s\<lparr>level_m := level_m s - 1\<rparr>)
            | Inr (Some y) \<Rightarrow> Inr s)
      else Inr s)"
  by pat_completeness auto
termination
  by (relation "measure (\<lambda>s. nat (level_m s))") auto

declare shrink_level.simps [simp del]

text \<open>
  The test after the search is \<open>x != nullptr || abs(x->score - score) > kDelta ||
  x->member != member\<close>, evaluated left to right: a non-null \<open>x\<close> returns false at once,
  a null \<open>x\<close> is dereferenced by the second operand.
\<close>

definition erase :: "Skiplist \<Rightarrow> real \<Rightarrow> string \<Rightarrow> (Skiplist \<times> bool) exec" where
  "erase s sc m =
     bind_exec (find_position s sc m) (\<lambda>(x, update).
     bind_exec (lift_res (get_forward s (Some x) 0)) (\<lambda>x0.
       if x0 \<noteq> None then ret (s, False)
       else
         bind_exec (lift_res (node_at s x0)) (\<lambda>n.
           if \<bar>score n - sc\<bar> > kDelta then ret (s, False)
           else if member n \<noteq> m then ret (s, False)
           else
             bind_exec (lift_res (for_each (unlink_level x0 update) [0..<nat (level_m s)] s)) (\<lambda>s1.
             bind_exec (lift_res (shrink_level (delete_node s1 x0))) (\<lambda>s2.
               ret (s2\<lparr>length_m := (length_m s2 + 2 ^ 64 - 1) mod 2 ^ 64\<rparr>, True))))))"

subsection \<open>toVector\<close>

partial_function (option) toVector_loop ::
  "Skiplist \<Rightarrow> addr option \<Rightarrow> (real \<times> string) list \<Rightarrow> (real \<times> string) list exec" where
  "toVector_loop s node out =
     (case node of
        None \<Rightarrow> Some (Inr out)
      | Some a \<Rightarrow>
          (case node_at s node of
             Inl e \<Rightarrow> Some (Inl e)
           | Inr n \<Rightarrow>
               (case at_index (forward n) 0 of
                  Inl e \<Rightarrow> Some (Inl e)
                | Inr nxt \<Rightarrow> toVector_loop s nxt (out @ [(score n, member n)]))))"

definition toVector :: "Skiplist \<Rightarrow> (real \<times> string) list exec" where
  "toVector s =
     bind_exec (lift_res (get_forward s (Some (head_m s)) 0)) (\<lambda>first. toVector_loop s first [])"

section \<open>KeyValueStore\<close>

text \<open>
  Every operation takes the store and returns the new one. \<open>nowMs()\<close> reads the steady
  clock; the reading is the argument \<open>now\<close> of the operation. On the containers,
  \<open>m.find(k)\<close> is \<^term>\<open>map_of m k\<close>, \<open>m[k] = v\<close> is \<^term>\<open>AList.update k v m\<close> and
  \<open>m.erase(k)\<close> is \<^term>\<open>AList.delete k m\<close>.
\<close>

text \<open>The value an \<open>int64_t\<close> holds after an addition or multiplication.\<close>

definition wrap_int64 :: "int \<Rightarrow> int" where
  "wrap_int64 x = (x + 2 ^ 63) mod 2 ^ 64 - 2 ^ 63"

definition kZsetVectorThreshold :: nat where
  "kZsetVectorThreshold = 128"

definition isExpired :: "ValueRecord \<Rightarrow> int \<Rightarrow> bool" where
  "isExpired r now_ms = (expire_at_ms r \<ge> 0 \<and> now_ms \<ge> expire_at_ms r)"

definition isExpiredHash :: "HashRecord \<Rightarrow> int \<Rightarrow> bool" where
  "isExpiredHash r now_ms = (h_expire_at_ms r \<ge> 0 \<and> now_ms \<ge> h_expire_at_ms r)"

definition isExpiredZSet :: "ZSetRecord \<Rightarrow> int \<Rightarrow> bool" where
  "isExpiredZSet r now_ms = (z_expire_at_ms r \<ge> 0 \<and> now_ms \<ge> z_expire_at_ms r)"

definition cleanupIfExpired :: "string \<Rightarrow> int \<Rightarrow> KeyValueStore \<Rightarrow> KeyValueStore" where
  "cleanupIfExpired key now_ms st =
     (case map_of (map_m st) key of
        None \<Rightarrow> st
      | Some r \<Rightarrow>
          if isExpired r now_ms
          then st\<lparr>map_m := AList.delete key (map_m st),
                  expire_index_m := AList.delete key (expire_index_m st)\<rparr>
          else st)"

definition cleanupIfExpiredHash :: "string \<Rightarrow> int \<Rightarrow> KeyValueStore \<Rightarrow> KeyValueStore" where
  "cleanupIfExpiredHash key now_ms st =
     (case map_of (hmap_m st) key of
        None \<Rightarrow> st
      | Some r \<Rightarrow>
          if isExpiredHash r now_ms
          then st\<lparr>hmap_m := AList.delete key (hmap_m st),
                  expire_index_m := AList.delete key (expire_index_m st)\<rparr>
          else st)"

definition cleanupIfExpiredZSet :: "string \<Rightarrow> int \<Rightarrow> KeyValueStore \<Rightarrow> KeyValueStore" where
  "cleanupIfExpiredZSet key now_ms st =
     (case map_of (zmap_m st) key of
        None \<Rightarrow> st
      | Some r \<Rightarrow>
          if isExpiredZSet r now_ms
          then st\<lparr>zmap_m := AList.delete key (zmap_m st),
                  expire_index_m := AList.delete key (expire_index_m st)\<rparr>
          else st)"

definition empty_store :: KeyValueStore where
  "empty_store = \<lparr>map_m = [], hmap_m = [], zmap_m = [], expire_index_m = []\<rparr>"

subsection \<open>Scalars\<close>

definition set_kv ::
  "KeyValueStore \<Rightarrow> int \<Rightarrow> string \<Rightarrow> string \<Rightarrow> int option \<Rightarrow> KeyValueStore \<times> bool" where
  "set_kv st now key v ttl_ms =
     (let expire_at = (case ttl_ms of None \<Rightarrow> - 1 | Some t \<Rightarrow> wrap_int64 (now + t));
          st1 = st\<lparr>map_m := AList.update key \<lparr>value = v, expire_at_ms = expire_at\<rparr> (map_m st)\<rparr>
      in if expire_at \<ge> 0
         then (st1\<lparr>expire_index_m := AList.update key expire_at (expire_index_m st1)\<rparr>, True)
         else (st1\<lparr>expire_index_m := AList.delete key (expire_index_m st1)\<rparr>, True))"

definition setWithExpireAtMs ::
  "KeyValueStore \<Rightarrow> string \<Rightarrow> string \<Rightarrow> int \<Rightarrow> KeyValueStore \<times> bool" where
  "setWithExpireAtMs st key v expire_at =
     (let st1 = st\<lparr>map_m := AList.update key \<lparr>value = v, expire_at_ms = expire_at\<rparr> (map_m st)\<rparr>
      in if expire_at \<ge> 0
         then (st1\<lparr>expire_index_m := AList.update key expire_at (expire_index_m st1)\<rparr>, True)
         else (st1, True))"

fun del_loop :: "int \<Rightarrow> string list \<Rightarrow> KeyValueStore \<Rightarrow> int \<Rightarrow> KeyValueStore \<times> int" where
  "del_loop now [] st removed = (st, removed)"
| "del_loop now (k # ks) st removed =
     (let st1 = cleanupIfExpired k now st
      in case map_of (map_m st1) k of
           Some r \<Rightarrow>
             del_loop now ks
               (st1\<lparr>map_m := AList.delete k (map_m st1),
                     expire_index_m := AList.delete k (expire_index_m st1)\<rparr>)
               (removed + 1)
         | None \<Rightarrow> del_loop now ks st1 removed)"

definition del :: "KeyValueStore \<Rightarrow> int \<Rightarrow> string list \<Rightarrow> KeyValueStore \<times> int" where
  "del st now keys = del_loop now keys st 0"

definition exists_kv :: "KeyValueStore \<Rightarrow> int \<Rightarrow> string \<Rightarrow> KeyValueStore \<times> bool" where
  "exists_kv st now key =
     (let st1 = cleanupIfExpired key now st
      in (st1, map_of (map_m st1) key \<noteq> None \<or> map_of (hmap_m st1) key \<noteq> None
                 \<or> map_of (zmap_m st1) key \<noteq> None))"

definition expire :: "KeyValueStore \<Rightarrow> int \<Rightarrow> string \<Rightarrow> int \<Rightarrow> KeyValueStore \<times> bool" where
  "expire st now key ttl_seconds =
     (let st1 = cleanupIfExpired key now st
      in case map_of (map_m st1) key of
           None \<Rightarrow> (st1, False)
         | Some r \<Rightarrow>
             if ttl_seconds < 0
             then (st1\<lparr>map_m := AList.update key (r\<lparr>expire_at_ms := - 1\<rparr>) (map_m st1),
                        expire_index_m := AList.delete key (expire_index_m st1)\<rparr>, True)
             else (let expire_at = wrap_int64 (now + wrap_int64 (ttl_seconds * 1000))
                   in (st1\<lparr>map_m := AList.update key (r\<lparr>expire_at_ms := expire_at\<rparr>) (map_m st1),
                            expire_index_m := AList.update key expire_at (expire_index_m st1)\<rparr>,
                       True)))"

subsection \<open>Expiry sampling\<close>

text \<open>
  The iterator into \<open>expire_index_\<close> is a position in the list, the length of the list
  being \<open>end()\<close>; erasing through the iterator removes that position and leaves the
  iterator on the element after it.
\<close>

function expireScanStep_loop ::
  "int \<Rightarrow> int \<Rightarrow> int \<Rightarrow> nat \<Rightarrow> KeyValueStore \<Rightarrow> int \<Rightarrow> KeyValueStore \<times> int" where
  "expireScanStep_loop now i max_steps it st removed =
     (if i < max_steps \<and> expire_index_m st \<noteq> []
      then (let it1 = (if it \<ge> length (expire_index_m st) then 0 else it);
                key = fst (expire_index_m st ! it1);
                when = snd (expire_index_m st ! it1)
            in if when \<ge> 0 \<and> now \<ge> when
               then expireScanStep_loop now (i + 1) max_steps it1
                      (st\<lparr>map_m := AList.delete key (map_m st),
                          hmap_m := AList.delete key (hmap_m st),
                          zmap_m := AList.delete key (zmap_m st),
                          expire_index_m := take it1 (expire_index_m st) @ drop (Suc it1) (expire_index_m st)\<rparr>)
                      (removed + 1)
               else expireScanStep_loop now (i + 1) max_steps (it1 + 1) st removed)
      else (st, removed))"
  by pat_completeness auto
termination
  by (relation "measure (\<lambda>(now, i, max_steps, it, st, removed). nat (max_steps - i))") auto

declare expireScanStep_loop.simps [simp del]

definition expireScanStep ::
  "KeyValueStore \<Rightarrow> int \<Rightarrow> rand_state \<Rightarrow> int \<Rightarrow> KeyValueStore \<times> rand_state \<times> int" where
  "expireScanStep st now rs max_steps =
     (if max_steps \<le> 0 \<or> expire_index_m st = [] then (st, rs, 0)
      else (let (r, rs') = rand rs;
                (st', removed) =
                   expireScanStep_loop now 0 max_steps (nat r mod length (expire_index_m st)) st 0
            in (st', rs', removed)))"

subsection \<open>Field maps\<close>

definition empty_HashRecord :: HashRecord where
  "empty_HashRecord = \<lparr>fields_m = [], h_expire_at_ms = - 1\<rparr>"

definition hset ::
  "KeyValueStore \<Rightarrow> int \<Rightarrow> string \<Rightarrow> string \<Rightarrow> string \<Rightarrow> KeyValueStore \<times> int" where
  "hset st now key field v =
     (let st1 = cleanupIfExpiredHash key now st;
          rec = (case map_of (hmap_m st1) key of None \<Rightarrow> empty_HashRecord | Some r \<Rightarrow> r);
          st2 = st1\<lparr>hmap_m := AList.update key (rec\<lparr>fields_m := AList.update field v (fields_m rec)\<rparr>) (hmap_m st1)\<rparr>
      in case map_of (fields_m rec) field of
           None \<Rightarrow> (st2, 1)
         | Some old \<Rightarrow> (st2, 0))"

fun hdel_loop :: "string list \<Rightarrow> (string \<times> string) list \<Rightarrow> int \<Rightarrow> (string \<times> string) list \<times> int" where
  "hdel_loop [] fs removed = (fs, removed)"
| "hdel_loop (f # rest) fs removed =
     (case map_of fs f of
        Some v \<Rightarrow> hdel_loop rest (AList.delete f fs) (removed + 1)
      | None \<Rightarrow> hdel_loop rest fs removed)"

definition hdel :: "KeyValueStore \<Rightarrow> int \<Rightarrow> string \<Rightarrow> string list \<Rightarrow> KeyValueStore \<times> int" where
  "hdel st now key fs =
     (let st1 = cleanupIfExpiredHash key now st
      in case map_of (hmap_m st1) key of
           None \<Rightarrow> (st1, 0)
         | Some rec \<Rightarrow>
             (let (fs', removed) = hdel_loop fs (fields_m rec) 0
              in if fs' = []
                 then (st1\<lparr>hmap_m := AList.delete key (hmap_m st1)\<rparr>, removed)
                 else (st1\<lparr>hmap_m := AList.update key (rec\<lparr>fields_m := fs'\<rparr>) (hmap_m st1)\<rparr>, removed)))"

definition setHashExpireAtMs :: "KeyValueStore \<Rightarrow> string \<Rightarrow> int \<Rightarrow> KeyValueStore \<times> bool" where
  "setHashExpireAtMs st key expire_at =
     (case map_of (hmap_m st) key of
        None \<Rightarrow> (st, False)
      | Some rec \<Rightarrow>
          (let st1 = st\<lparr>hmap_m := AList.update key (rec\<lparr>h_expire_at_ms := expire_at\<rparr>) (hmap_m st)\<rparr>
           in if expire_at \<ge> 0
              then (st1\<lparr>expire_index_m := AList.update key expire_at (expire_index_m st1)\<rparr>, True)
              else (st1\<lparr>expire_index_m := AList.delete key (expire_index_m st1)\<rparr>, True)))"

subsection \<open>Ordered sets\<close>

definition empty_ZSetRecord :: ZSetRecord where
  "empty_ZSetRecord =
     \<lparr>use_skiplist = False, items = [], sl = None, member_to_score = [], z_expire_at_ms = - 1\<rparr>"

text \<open>The comparison handed to \<open>std::lower_bound\<close>.\<close>

definition item_less :: "real \<times> string \<Rightarrow> real \<times> string \<Rightarrow> bool" where
  "item_less a b = (if \<bar>fst a - fst b\<bar> > kDelta then fst a < fst b else snd a < snd b)"

text \<open>
  \<open>std::lower_bound\<close> is the usual halving search; it is only ever started on the whole
  vector, where \<open>first + half\<close> stays below the length.
\<close>

function lower_bound_loop ::
  "(real \<times> string) list \<Rightarrow> real \<times> string \<Rightarrow> nat \<Rightarrow> nat \<Rightarrow> nat" where
  "lower_bound_loop vec v first len =
     (if len > 0
      then (if item_less (vec ! (first + len div 2)) v
            then lower_bound_loop vec v (first + len div 2 + 1) (len - len div 2 - 1)
            else lower_bound_loop vec v first (len div 2))
      else first)"
  by pat_completeness auto
termination
  by (relation "measure (\<lambda>(vec, v, first, len). len)") auto

declare lower_bound_loop.simps [simp del]

definition lower_bound :: "(real \<times> string) list \<Rightarrow> real \<times> string \<Rightarrow> nat" where
  "lower_bound vec v = lower_bound_loop vec v 0 (length vec)"

text \<open>The migration loop: every pair of the vector is inserted into the fresh skiplist.\<close>

fun insert_all ::
  "(real \<times> string) list \<Rightarrow> Skiplist \<Rightarrow> rand_state \<Rightarrow> (Skiplist \<times> rand_state) exec" where
  "insert_all [] s rs = ret (s, rs)"
| "insert_all (p # ps) s rs =
     (case insert_sl s (fst p) (snd p) rs of
        None \<Rightarrow> None
      | Some (Inl e) \<Rightarrow> Some (Inl e)
      | Some (Inr (s', rs', ok)) \<Rightarrow> insert_all ps s' rs')"

text \<open>
  The vector branch shared by both halves of \<open>zadd\<close>: binary search, insertion, and the
  switch to the skiplist once the vector holds more than the threshold.
\<close>

definition add_to_vector ::
  "ZSetRecord \<Rightarrow> (real \<times> string) list \<Rightarrow> real \<Rightarrow> string \<Rightarrow> rand_state \<Rightarrow> (ZSetRecord \<times> rand_state) exec" where
  "add_to_vector rec vec sc mem rs =
     (let it = lower_bound vec (sc, mem);
          vec' = take it vec @ [(sc, mem)] @ drop it vec
      in if length vec' > kZsetVectorThreshold
         then bind_exec (insert_all vec' new_Skiplist rs) (\<lambda>(s, rs').
                ret (rec\<lparr>use_skiplist := True, sl := Some s, items := []\<rparr>, rs'))
         else ret (rec\<lparr>items := vec'\<rparr>, rs))"

definition zadd ::
  "KeyValueStore \<Rightarrow> int \<Rightarrow> rand_state \<Rightarrow> string \<Rightarrow> real \<Rightarrow> string \<Rightarrow> (KeyValueStore \<times> rand_state \<times> int) exec" where
  "zadd st now rs key sc mem =
     (let st1 = cleanupIfExpiredZSet key now st;
          rec = (case map_of (zmap_m st1) key of None \<Rightarrow> empty_ZSetRecord | Some r \<Rightarrow> r)
      in case map_of (member_to_score rec) mem of
           None \<Rightarrow>
             bind_exec
               (if \<not> use_skiplist rec then add_to_vector rec (items rec) sc mem rs
                else (case sl rec of
                        None \<Rightarrow> fault NullDeref
                      | Some s \<Rightarrow>
                          bind_exec (insert_sl s sc mem rs) (\<lambda>(s', rs', ok).
                            ret (rec\<lparr>sl := Some s'\<rparr>, rs'))))
               (\<lambda>(rec', rs').
                  ret (st1\<lparr>zmap_m :=
                             AList.update key
                               (rec'\<lparr>member_to_score := member_to_score rec' @ [(mem, sc)]\<rparr>)
                               (zmap_m st1)\<rparr>, rs', 1))
         | Some old \<Rightarrow>
             if old = sc then ret (st1, rs, 0)
             else
               bind_exec
                 (if \<not> use_skiplist rec then add_to_vector rec (remove1 (old, mem) (items rec)) sc mem rs
                  else (case sl rec of
                          None \<Rightarrow> fault NullDeref
                        | Some s \<Rightarrow>
                            bind_exec (erase s old mem) (\<lambda>(s1, erased).
                            bind_exec (insert_sl s1 sc mem rs) (\<lambda>(s', rs', ok).
                              ret (rec\<lparr>sl := Some s'\<rparr>, rs')))))
                 (\<lambda>(rec', rs').
                    ret (st1\<lparr>zmap_m :=
                               AList.update key
                                 (rec'\<lparr>member_to_score := AList.update mem sc (member_to_score rec')\<rparr>)
                                 (zmap_m st1)\<rparr>, rs', 0)))"

fun zrem_loop :: "string list \<Rightarrow> ZSetRecord \<Rightarrow> int \<Rightarrow> (ZSetRecord \<times> int) exec" where
  "zrem_loop [] rec removed = ret (rec, removed)"
| "zrem_loop (m # ms) rec removed =
     (case map_of (member_to_score rec) m of
        None \<Rightarrow> zrem_loop ms rec removed
      | Some sc \<Rightarrow>
          (let rec1 = rec\<lparr>member_to_score := AList.delete m (member_to_score rec)\<rparr>
           in if \<not> use_skiplist rec1
              then (if (sc, m) \<in> set (items rec1)
                    then zrem_loop ms (rec1\<lparr>items := remove1 (sc, m) (items rec1)\<rparr>) (removed + 1)
                    else zrem_loop ms rec1 removed)
              else (case sl rec1 of
                      None \<Rightarrow> Some (Inl NullDeref)
                    | Some s \<Rightarrow>
                        (case erase s sc m of
                           None \<Rightarrow> None
                         | Some (Inl e) \<Rightarrow> Some (Inl e)
                         | Some (Inr (s', erased)) \<Rightarrow>
                             zrem_loop ms (rec1\<lparr>sl := Some s'\<rparr>)
                               (if erased then removed + 1 else removed)))))"

definition zrem :: "KeyValueStore \<Rightarrow> int \<Rightarrow> string \<Rightarrow> string list \<Rightarrow> (KeyValueStore \<times> int) exec" where
  "zrem st now key members =
     (let st1 = cleanupIfExpiredZSet key now st
      in case map_of (zmap_m st1) key of
           None \<Rightarrow> ret (st1, 0)
         | Some rec \<Rightarrow>
             bind_exec (zrem_loop members rec 0) (\<lambda>(rec', removed).
               if \<not> use_skiplist rec'
               then (if items rec' = []
                     then ret (st1\<lparr>zmap_m := AList.delete key (zmap_m st1)\<rparr>, removed)
                     else ret (st1\<lparr>zmap_m := AList.update key rec' (zmap_m st1)\<rparr>, removed))
               else (case sl rec' of
                       None \<Rightarrow> fault NullDeref
                     | Some s \<Rightarrow>
                         if length_m s = 0
                         then ret (st1\<lparr>zmap_m := AList.delete key (zmap_m st1)\<rparr>, removed)
                         else ret (st1\<lparr>zmap_m := AList.update key rec' (zmap_m st1)\<rparr>, removed))))"

definition setZSetExpireAtMs :: "KeyValueStore \<Rightarrow> string \<Rightarrow> int \<Rightarrow> KeyValueStore \<times> bool" where
  "setZSetExpireAtMs st key expire_at =
     (case map_of (zmap_m st) key of
        None \<Rightarrow> (st, False)
      | Some rec \<Rightarrow>
          (let st1 = st\<lparr>zmap_m := AList.update key (rec\<lparr>z_expire_at_ms := expire_at\<rparr>) (zmap_m st)\<rparr>
           in if expire_at \<ge> 0
              then (st1\<lparr>expire_index_m := AList.update key expire_at (expire_index_m st1)\<rparr>, True)
              else (st1\<lparr>expire_index_m := AList.delete key (expire_index_m st1)\<rparr>, True)))"

subsection \<open>Snapshots\<close>

record ZSetFlat =
  flat_key :: string
  flat_items :: "(real \<times> string) list"
  flat_expire_at_ms :: int

definition snapshot :: "KeyValueStore \<Rightarrow> (string \<times> ValueRecord) list" where
  "snapshot st = map_m st"

definition snapshotHash :: "KeyValueStore \<Rightarrow> (string \<times> HashRecord) list" where
  "snapshotHash st = hmap_m st"

text \<open>The loop of \<open>snapshotZSet\<close> that fills the local vector \<open>out\<close>.\<close>

fun snapshotZSet_loop :: "(string \<times> ZSetRecord) list \<Rightarrow> ZSetFlat list \<Rightarrow> ZSetFlat list exec" where
  "snapshotZSet_loop [] out = ret out"
| "snapshotZSet_loop (kv # kvs) out =
     (case (if \<not> use_skiplist (snd kv) then ret (items (snd kv))
            else (case sl (snd kv) of None \<Rightarrow> fault NullDeref | Some s \<Rightarrow> toVector s)) of
        None \<Rightarrow> None
      | Some (Inl e) \<Rightarrow> Some (Inl e)
      | Some (Inr its) \<Rightarrow>
          snapshotZSet_loop kvs
            (out @ [\<lparr>flat_key = fst kv, flat_items = its, flat_expire_at_ms = z_expire_at_ms (snd kv)\<rparr>]))"

text \<open>
  The function body ends after the loop: there is no \<open>return out\<close>, so control flows off
  the end of a function that returns a vector.
\<close>

definition snapshotZSet :: "KeyValueStore \<Rightarrow> ZSetFlat list exec" where
  "snapshotZSet st = bind_exec (snapshotZSet_loop (zmap_m st) []) (\<lambda>out. fault NoReturnValue)"

subsection \<open>KeyValueStore::listKeys\<close>

text \<open>\<open>std::sort\<close> followed by \<open>std::unique\<close> and \<open>erase\<close>.\<close>

definition listKeys :: "KeyValueStore \<Rightarrow> string list" where
  "listKeys st =
     (let out = map fst (map_m st) @ map fst (hmap_m st) @ map fst (zmap_m st)
      in remdups_adj (sort out))"

section \<open>Strings and numbers of the standard library\<close>

definition newline :: char where
  "newline = CHR 0x0A"

definition space :: char where
  "space = CHR '' ''"

text \<open>\<open>std::to_string\<close> on the integer types.\<close>

function to_string_nat :: "nat \<Rightarrow> string" where
  "to_string_nat n =
     (if n < 10 then [''0123456789'' ! n]
      else to_string_nat (n div 10) @ [''0123456789'' ! (n mod 10)])"
  by pat_completeness auto
termination
  by (relation "measure (\<lambda>n. n)") auto

declare to_string_nat.simps [simp del]

definition to_string_int :: "int \<Rightarrow> string" where
  "to_string_int i = (if i < 0 then ''-'' @ to_string_nat (nat (- i)) else to_string_nat (nat i))"

text \<open>
  \<open>std::to_string(double)\<close> prints with \<open>%f\<close>: six digits after the point, the value
  rounded to the nearest, ties to even.
\<close>

definition round_half_even :: "real \<Rightarrow> int" where
  "round_half_even x =
     (let f = \<lfloor>x\<rfloor>; d = x - of_int f
      in if d < 1 / 2 then f else if d > 1 / 2 then f + 1 else if even f then f else f + 1)"

definition to_string_double :: "real \<Rightarrow> string" where
  "to_string_double x =
     (let n = nat (round_half_even (\<bar>x\<bar> * 10 ^ 6));
          frac = to_string_nat (n mod 10 ^ 6)
      in (if x < 0 then ''-'' else []) @ to_string_nat (n div 10 ^ 6) @ ''.''
           @ replicate (6 - length frac) (CHR ''0'') @ frac)"

definition isspace :: "char \<Rightarrow> bool" where
  "isspace c = (c \<in> set [CHR '' '', CHR 0x09, CHR 0x0A, CHR 0x0B, CHR 0x0C, CHR 0x0D])"

definition digit_val :: "char \<Rightarrow> nat option" where
  "digit_val c =
     map_of [(CHR ''0'', 0), (CHR ''1'', 1), (CHR ''2'', 2), (CHR ''3'', 3), (CHR ''4'', 4),
             (CHR ''5'', 5), (CHR ''6'', 6), (CHR ''7'', 7), (CHR ''8'', 8), (CHR ''9'', 9)] c"

definition is_digit :: "char \<Rightarrow> bool" where
  "is_digit c = (digit_val c \<noteq> None)"

definition digits_value :: "string \<Rightarrow> nat" where
  "digits_value ds = foldl (\<lambda>a c. 10 * a + the (digit_val c)) 0 ds"

text \<open>
  The common part of \<open>std::stoi\<close> and \<open>std::stoll\<close>: leading white space, an optional
  sign, then the longest run of decimal digits; what follows is ignored. No digit at all
  is \<open>std::invalid_argument\<close>, a value outside the target type \<open>std::out_of_range\<close>.
\<close>

definition parse_sign :: "string \<Rightarrow> bool \<times> string" where
  "parse_sign s =
     (case s of
        [] \<Rightarrow> (False, [])
      | c # r \<Rightarrow> if c = CHR ''-'' then (True, r) else if c = CHR ''+'' then (False, r) else (False, s))"

definition parse_integer :: "string \<Rightarrow> int res" where
  "parse_integer s =
     (let (neg, s2) = parse_sign (dropWhile isspace s);
          ds = takeWhile is_digit s2
      in if ds = [] then Inl InvalidArgument
         else Inr (if neg then - int (digits_value ds) else int (digits_value ds)))"

definition stoi :: "string \<Rightarrow> int res" where
  "stoi s =
     bind_res (parse_integer s) (\<lambda>v.
       if - (2 ^ 31) \<le> v \<and> v < 2 ^ 31 then Inr v else Inl OutOfRange)"

definition stoll :: "string \<Rightarrow> int res" where
  "stoll s =
     bind_res (parse_integer s) (\<lambda>v.
       if - (2 ^ 63) \<le> v \<and> v < 2 ^ 63 then Inr v else Inl OutOfRange)"

text \<open>
  \<open>std::stod\<close> on decimal notation: white space, sign, digits, point, digits, and an
  exponent (\<open>e\<close> or \<open>E\<close>, sign, digits) when at least one digit follows it. The value is
  the exact decimal value, not rounded to a \<open>double\<close>; hexadecimal notation, infinities,
  NaN and the range check of \<open>strtod\<close> are outside the model.
\<close>

definition parse_exponent :: "string \<Rightarrow> int" where
  "parse_exponent r =
     (case r of
        [] \<Rightarrow> 0
      | c # r' \<Rightarrow>
          if c = CHR ''e'' \<or> c = CHR ''E''
          then (let (eneg, r'') = parse_sign r';
                    ed = takeWhile is_digit r''
                in if ed = [] then 0
                   else if eneg then - int (digits_value ed) else int (digits_value ed))
          else 0)"

definition scale10 :: "real \<Rightarrow> int \<Rightarrow> real" where
  "scale10 v e = (if e \<ge> 0 then v * 10 ^ nat e else v / 10 ^ nat (- e))"

definition stod :: "string \<Rightarrow> real res" where
  "stod s =
     (let (neg, s2) = parse_sign (dropWhile isspace s);
          ip = takeWhile is_digit s2;
          r = dropWhile is_digit s2;
          has_point = (case r of [] \<Rightarrow> False | c # r' \<Rightarrow> c = CHR ''.'');
          fp = (if has_point then takeWhile is_digit (tl r) else []);
          r2 = (if has_point then dropWhile is_digit (tl r) else r);
          v = scale10 (real (digits_value ip) + real (digits_value fp) / 10 ^ length fp)
                (parse_exponent r2)
      in if ip = [] \<and> fp = [] then Inl InvalidArgument
         else Inr (if neg then - v else v))"

text \<open>\<open>static_cast<size_t>\<close> of an \<open>int\<close>, and \<open>size_t\<close> addition.\<close>

definition to_size_t :: "int \<Rightarrow> nat" where
  "to_size_t i = nat (i mod 2 ^ 64)"

definition size_t_add :: "nat \<Rightarrow> nat \<Rightarrow> nat" where
  "size_t_add a b = (a + b) mod 2 ^ 64"

text \<open>
  \<open>s.substr(pos, n)\<close> and \<open>s.substr(pos)\<close> (\<open>n = None\<close>): a position beyond the size
  throws.
\<close>

definition substr :: "string \<Rightarrow> nat \<Rightarrow> nat option \<Rightarrow> string res" where
  "substr s pos n =
     (if pos > length s then Inl OutOfRange
      else Inr (case n of None \<Rightarrow> drop pos s | Some k \<Rightarrow> take k (drop pos s)))"

text \<open>\<open>s.find(c, pos)\<close>; \<open>None\<close> is \<open>npos\<close>.\<close>

definition find_char :: "char \<Rightarrow> string \<Rightarrow> nat \<Rightarrow> nat option" where
  "find_char c s pos =
     (if c \<in> set (drop pos s) then Some (pos + length (takeWhile (\<lambda>x. x \<noteq> c) (drop pos s))) else None)"

text \<open>\<open>s.rfind(prefix, 0) == 0\<close>: the string starts with the prefix.\<close>

definition starts_with :: "string \<Rightarrow> string \<Rightarrow> bool" where
  "starts_with s pre = (take (length pre) s = pre)"

text \<open>\<open>::toupper\<close> in the C locale.\<close>

definition toupper :: "char \<Rightarrow> char" where
  "toupper c =
     (case map_of (zip ''abcdefghijklmnopqrstuvwxyz'' ''ABCDEFGHIJKLMNOPQRSTUVWXYZ'') c of
        None \<Rightarrow> c
      | Some u \<Rightarrow> u)"

section \<open>Rdb\<close>

record RdbOptions =
  enabled :: bool
  dir :: string
  filename :: string

text \<open>
  The file system as far as the snapshot code sees it: the files by path, the paths that
  cannot be opened for writing, the paths whose \<open>read\<close> fails, and how many \<open>write\<close> calls
  succeed before the device gives up (\<open>None\<close>: all of them).
\<close>

record Disk =
  files :: "(string \<times> string) list"
  unwritable :: "string list"
  unreadable :: "string list"
  write_budget :: "nat option"

definition joinPath :: "string \<Rightarrow> string \<Rightarrow> string" where
  "joinPath d file =
     (if d = [] then file
      else if last d = CHR ''/'' then d @ file
      else d @ ''/'' @ file)"

definition path :: "RdbOptions \<Rightarrow> string" where
  "path opts = joinPath (dir opts) (filename opts)"

subsection \<open>save\<close>

definition str_record :: "string \<times> ValueRecord \<Rightarrow> string" where
  "str_record kv =
     to_string_nat (length (fst kv)) @ '' '' @ fst kv @ '' ''
       @ to_string_nat (length (value (snd kv))) @ '' '' @ value (snd kv) @ '' ''
       @ to_string_int (expire_at_ms (snd kv)) @ [newline]"

definition hash_head :: "string \<times> HashRecord \<Rightarrow> string" where
  "hash_head kv =
     to_string_nat (length (fst kv)) @ '' '' @ fst kv @ '' ''
       @ to_string_int (h_expire_at_ms (snd kv)) @ '' ''
       @ to_string_nat (length (fields_m (snd kv))) @ [newline]"

definition hash_field :: "string \<times> string \<Rightarrow> string" where
  "hash_field fv =
     to_string_nat (length (fst fv)) @ '' '' @ fst fv @ '' ''
       @ to_string_nat (length (snd fv)) @ '' '' @ snd fv @ [newline]"

definition zset_head :: "ZSetFlat \<Rightarrow> string" where
  "zset_head zf =
     to_string_nat (length (flat_key zf)) @ '' '' @ flat_key zf @ '' ''
       @ to_string_int (flat_expire_at_ms zf) @ '' ''
       @ to_string_nat (length (flat_items zf)) @ [newline]"

definition zset_item :: "real \<times> string \<Rightarrow> string" where
  "zset_item it =
     to_string_double (fst it) @ '' '' @ to_string_nat (length (snd it)) @ '' '' @ snd it @ [newline]"

text \<open>
  The \<open>write\<close> calls of \<open>save\<close> in order, each with the message \<open>save\<close> reports when that
  call fails.
\<close>

definition save_chunks ::
  "(string \<times> ValueRecord) list \<Rightarrow> (string \<times> HashRecord) list \<Rightarrow> ZSetFlat list \<Rightarrow> (string \<times> string) list" where
  "save_chunks snap_str snap_hash snap_zset =
     [(''write hdr'', ''MRDB2'' @ [newline]),
      (''write str cnt'', ''STR '' @ to_string_nat (length snap_str) @ [newline])]
     @ map (\<lambda>kv. (''write str rec'', str_record kv)) snap_str
     @ [(''write hash cnt'', ''HASH '' @ to_string_nat (length snap_hash) @ [newline])]
     @ concat (map (\<lambda>kv. (''write hash head'', hash_head kv)
                          # map (\<lambda>fv. (''write hash field'', hash_field fv)) (fields_m (snd kv))) snap_hash)
     @ [(''write zset cnt'', ''ZSET '' @ to_string_nat (length snap_zset) @ [newline])]
     @ concat (map (\<lambda>zf. (''write zset head'', zset_head zf)
                            # map (\<lambda>it. (''write zset item'', zset_item it)) (flat_items zf)) snap_zset)"

fun write_chunks :: "nat option \<Rightarrow> (string \<times> string) list \<Rightarrow> string \<Rightarrow> string \<times> string option" where
  "write_chunks budget [] written = (written, None)"
| "write_chunks budget (c # cs) written =
     (if budget = Some 0 then (written, Some (fst c))
      else write_chunks (map_option (\<lambda>n. n - 1) budget) cs (written @ snd c))"

text \<open>
  The result is the disk after the call, the boolean returned, and the message put in
  \<open>err\<close> if any. The file is opened (created or truncated) before the snapshots are taken.
\<close>

definition Rdb_save :: "RdbOptions \<Rightarrow> KeyValueStore \<Rightarrow> Disk \<Rightarrow> (Disk \<times> bool \<times> string option) exec" where
  "Rdb_save opts store disk =
     (if \<not> enabled opts then ret (disk, True, None)
      else if path opts \<in> set (unwritable disk) then ret (disk, False, Some ''open rdb failed'')
      else
        (let snap_str = snapshot store;
             snap_hash = snapshotHash store
         in bind_exec (snapshotZSet store) (\<lambda>snap_zset.
              let (written, failed) = write_chunks (write_budget disk) (save_chunks snap_str snap_hash snap_zset) []
              in ret (disk\<lparr>files := AList.update (path opts) written (files disk)\<rparr>, failed = None, failed))))"

subsection \<open>load\<close>

text \<open>
  \<open>readLine\<close> works on the part of the file from \<open>pos\<close> on: it fails when no newline is
  left, otherwise it yields the bytes before the next newline and moves behind it.
\<close>

definition readLine :: "string \<Rightarrow> (string \<times> string) option" where
  "readLine rest =
     (if newline \<in> set rest
      then Some (takeWhile (\<lambda>c. c \<noteq> newline) rest, tl (dropWhile (\<lambda>c. c \<noteq> newline) rest))
      else None)"

function skip_spaces :: "string \<Rightarrow> nat \<Rightarrow> nat" where
  "skip_spaces line s = (if s < length line \<and> line ! s = space then skip_spaces line (s + 1) else s)"
  by pat_completeness auto
termination
  by (relation "measure (\<lambda>(line, s). length line - s)") auto

declare skip_spaces.simps [simp del]

text \<open>The lambdas \<open>nextTok\<close> and \<open>nextTok2\<close>: the token and the new position.\<close>

definition nextTok :: "string \<Rightarrow> nat \<Rightarrow> (string \<times> nat) res" where
  "nextTok line p =
     (let s = skip_spaces line p
      in case find_char space line s of
           None \<Rightarrow> bind_res (substr line s None) (\<lambda>tok. Inr (tok, length line))
         | Some q \<Rightarrow> bind_res (substr line s (Some (q - s))) (\<lambda>tok. Inr (tok, q + 1)))"

text \<open>A scalar record line: \<open>klen key vlen value expire\<close>.\<close>

definition parse_str_rec :: "string \<Rightarrow> (string \<times> string \<times> int) res" where
  "parse_str_rec line =
     bind_res (nextTok line 0) (\<lambda>(key_len_s, p1).
     bind_res (stoi key_len_s) (\<lambda>klen.
     bind_res (substr line p1 (Some (to_size_t klen))) (\<lambda>key.
     bind_res (nextTok line (size_t_add p1 (size_t_add (to_size_t klen) 1))) (\<lambda>(val_len_s, p2).
     bind_res (stoi val_len_s) (\<lambda>vlen.
     bind_res (substr line p2 (Some (to_size_t vlen))) (\<lambda>val.
     bind_res (nextTok line (size_t_add p2 (size_t_add (to_size_t vlen) 1))) (\<lambda>(expiry_s, p3).
     bind_res (stoll expiry_s) (\<lambda>expiry.
       Inr (key, val, expiry)))))))))"

text \<open>The head line of a field-map or ordered-set record: \<open>klen key expire count\<close>.\<close>

definition parse_head :: "string \<Rightarrow> (string \<times> int \<times> int) res" where
  "parse_head line =
     bind_res (nextTok line 0) (\<lambda>(klen_s, p1).
     bind_res (stoi klen_s) (\<lambda>klen.
     bind_res (substr line p1 (Some (to_size_t klen))) (\<lambda>key.
     bind_res (nextTok line (size_t_add p1 (size_t_add (to_size_t klen) 1))) (\<lambda>(expiry_s, p2).
     bind_res (stoll expiry_s) (\<lambda>expiry.
     bind_res (nextTok line p2) (\<lambda>(count_s, p3).
     bind_res (stoi count_s) (\<lambda>n.
       Inr (key, expiry, n))))))))"

text \<open>A field line: \<open>flen field vlen value\<close>.\<close>

definition parse_field :: "string \<Rightarrow> (string \<times> string) res" where
  "parse_field line =
     bind_res (nextTok line 0) (\<lambda>(flen_s, q1).
     bind_res (stoi flen_s) (\<lambda>flen.
     bind_res (substr line q1 (Some (to_size_t flen))) (\<lambda>field.
     bind_res (nextTok line (size_t_add q1 (size_t_add (to_size_t flen) 1))) (\<lambda>(vlen_s, q2).
     bind_res (stoi vlen_s) (\<lambda>vlen.
     bind_res (substr line q2 (Some (to_size_t vlen))) (\<lambda>val.
       Inr (field, val)))))))"

text \<open>An item line: \<open>score mlen member\<close>.\<close>

definition parse_item :: "string \<Rightarrow> (real \<times> string) res" where
  "parse_item line =
     bind_res (nextTok line 0) (\<lambda>(score_s, q1).
     bind_res (stod score_s) (\<lambda>sc.
     bind_res (nextTok line q1) (\<lambda>(mlen_s, q2).
     bind_res (stoi mlen_s) (\<lambda>ml.
     bind_res (substr line q2 (Some (to_size_t ml))) (\<lambda>mem.
       Inr (sc, mem))))))"

text \<open>
  While loading, the state is the unread rest of the file and the store (and the random
  generator where \<open>zadd\<close> is called). A step either goes on, or makes \<open>load\<close> return false
  with a message, the store being as far as it was filled.
\<close>

datatype ('a, 'b) flow = Go 'a | ReturnFalse string 'b

fun load_str_loop ::
  "string \<Rightarrow> nat \<Rightarrow> string \<Rightarrow> KeyValueStore \<Rightarrow> (string \<times> KeyValueStore, KeyValueStore) flow res" where
  "load_str_loop msg 0 rest st = Inr (Go (rest, st))"
| "load_str_loop msg (Suc n) rest st =
     (case readLine rest of
        None \<Rightarrow> Inr (ReturnFalse msg st)
      | Some (line, rest') \<Rightarrow>
          (case parse_str_rec line of
             Inl e \<Rightarrow> Inl e
           | Inr (key, val, expiry) \<Rightarrow>
               load_str_loop msg n rest' (fst (setWithExpireAtMs st key val expiry))))"

fun load_fields :: "nat \<Rightarrow> string \<Rightarrow> (string \<times> string) list \<Rightarrow> (string \<times> (string \<times> string) list) option res" where
  "load_fields 0 rest fvs = Inr (Some (rest, fvs))"
| "load_fields (Suc n) rest fvs =
     (case readLine rest of
        None \<Rightarrow> Inr None
      | Some (line, rest') \<Rightarrow>
          (case parse_field line of
             Inl e \<Rightarrow> Inl e
           | Inr fv \<Rightarrow> load_fields n rest' (fvs @ [fv])))"

fun hset_all :: "int \<Rightarrow> string \<Rightarrow> (string \<times> string) list \<Rightarrow> KeyValueStore \<Rightarrow> KeyValueStore" where
  "hset_all now key [] st = st"
| "hset_all now key (fv # fvs) st = hset_all now key fvs (fst (hset st now key (fst fv) (snd fv)))"

fun load_hash_loop ::
  "int \<Rightarrow> nat \<Rightarrow> string \<Rightarrow> KeyValueStore \<Rightarrow> (string \<times> KeyValueStore, KeyValueStore) flow res" where
  "load_hash_loop now 0 rest st = Inr (Go (rest, st))"
| "load_hash_loop now (Suc n) rest st =
     (case readLine rest of
        None \<Rightarrow> Inr (ReturnFalse ''trunc hash head'' st)
      | Some (line, rest1) \<Rightarrow>
          (case parse_head line of
             Inl e \<Rightarrow> Inl e
           | Inr (key, expiry, nf) \<Rightarrow>
               if nf < 0 then Inl LengthError
               else
                 (case load_fields (nat nf) rest1 [] of
                    Inl e \<Rightarrow> Inl e
                  | Inr None \<Rightarrow> Inr (ReturnFalse ''trunc hash field'' st)
                  | Inr (Some (rest2, fvs)) \<Rightarrow>
                      load_hash_loop now n rest2
                        (if fvs \<noteq> []
                         then (let st1 = hset_all now key fvs st
                               in if expiry \<ge> 0 then fst (setHashExpireAtMs st1 key expiry) else st1)
                         else st))))"

fun load_items ::
  "int \<Rightarrow> string \<Rightarrow> nat \<Rightarrow> string \<Rightarrow> KeyValueStore \<Rightarrow> rand_state \<Rightarrow>
     (string \<times> KeyValueStore \<times> rand_state, KeyValueStore \<times> rand_state) flow exec" where
  "load_items now key 0 rest st rs = ret (Go (rest, st, rs))"
| "load_items now key (Suc n) rest st rs =
     (case readLine rest of
        None \<Rightarrow> ret (ReturnFalse ''trunc zset item'' (st, rs))
      | Some (line, rest') \<Rightarrow>
          (case parse_item line of
             Inl e \<Rightarrow> Some (Inl e)
           | Inr (sc, mem) \<Rightarrow>
               (case zadd st now rs key sc mem of
                  None \<Rightarrow> None
                | Some (Inl e) \<Rightarrow> Some (Inl e)
                | Some (Inr (st', rs', added)) \<Rightarrow> load_items now key n rest' st' rs')))"

fun load_zset_loop ::
  "int \<Rightarrow> nat \<Rightarrow> string \<Rightarrow> KeyValueStore \<Rightarrow> rand_state \<Rightarrow>
     (string \<times> KeyValueStore \<times> rand_state, KeyValueStore \<times> rand_state) flow exec" where
  "load_zset_loop now 0 rest st rs = ret (Go (rest, st, rs))"
| "load_zset_loop now (Suc n) rest st rs =
     (case readLine rest of
        None \<Rightarrow> ret (ReturnFalse ''trunc zset head'' (st, rs))
      | Some (line, rest1) \<Rightarrow>
          (case parse_head line of
             Inl e \<Rightarrow> Some (Inl e)
           | Inr (key, expiry, ni) \<Rightarrow>
               (case load_items now key (nat ni) rest1 st rs of
                  None \<Rightarrow> None
                | Some (Inl e) \<Rightarrow> Some (Inl e)
                | Some (Inr (ReturnFalse msg c)) \<Rightarrow> ret (ReturnFalse msg c)
                | Some (Inr (Go (rest2, st1, rs1))) \<Rightarrow>
                    load_zset_loop now n rest2
                      (if expiry \<ge> 0 then fst (setZSetExpireAtMs st1 key expiry) else st1) rs1)))"

text \<open>
  The three sections of an \<open>MRDB2\<close> file, after the magic line. The result is the store,
  the generator, the boolean returned and the message put in \<open>err\<close>.
\<close>

definition load_zset_section ::
  "int \<Rightarrow> string \<Rightarrow> KeyValueStore \<Rightarrow> rand_state \<Rightarrow> (KeyValueStore \<times> rand_state \<times> bool \<times> string option) exec" where
  "load_zset_section now rest st rs =
     (case readLine rest of
        None \<Rightarrow> ret (st, rs, False, Some ''no zset section'')
      | Some (line, rest1) \<Rightarrow>
          if \<not> starts_with line ''ZSET '' then ret (st, rs, False, Some ''no zset tag'')
          else
            bind_exec (lift_res (bind_res (substr line 5 None) stoi)) (\<lambda>zset_count.
            bind_exec (load_zset_loop now (nat zset_count) rest1 st rs) (\<lambda>r.
              case r of
                ReturnFalse msg (st', rs') \<Rightarrow> ret (st', rs', False, Some msg)
              | Go (rest2, st', rs') \<Rightarrow> ret (st', rs', True, None))))"

definition load_hash_section ::
  "int \<Rightarrow> string \<Rightarrow> KeyValueStore \<Rightarrow> rand_state \<Rightarrow> (KeyValueStore \<times> rand_state \<times> bool \<times> string option) exec" where
  "load_hash_section now rest st rs =
     (case readLine rest of
        None \<Rightarrow> ret (st, rs, False, Some ''no hash section'')
      | Some (line, rest1) \<Rightarrow>
          if \<not> starts_with line ''HASH '' then ret (st, rs, False, Some ''no hash tag'')
          else
            bind_exec (lift_res (bind_res (substr line 5 None) stoi)) (\<lambda>hash_count.
            bind_exec (lift_res (load_hash_loop now (nat hash_count) rest1 st)) (\<lambda>r.
              case r of
                ReturnFalse msg st' \<Rightarrow> ret (st', rs, False, Some msg)
              | Go (rest2, st') \<Rightarrow> load_zset_section now rest2 st' rs)))"

definition load_str_section ::
  "int \<Rightarrow> string \<Rightarrow> KeyValueStore \<Rightarrow> rand_state \<Rightarrow> (KeyValueStore \<times> rand_state \<times> bool \<times> string option) exec" where
  "load_str_section now rest st rs =
     (case readLine rest of
        None \<Rightarrow> ret (st, rs, False, Some ''no str section'')
      | Some (line, rest1) \<Rightarrow>
          if \<not> starts_with line ''STR '' then ret (st, rs, False, Some ''no str tag'')
          else
            bind_exec (lift_res (bind_res (substr line 4 None) stoi)) (\<lambda>str_count.
            bind_exec (lift_res (load_str_loop ''trunc str rec'' (nat str_count) rest1 st)) (\<lambda>r.
              case r of
                ReturnFalse msg st' \<Rightarrow> ret (st', rs, False, Some msg)
              | Go (rest2, st') \<Rightarrow> load_hash_section now rest2 st' rs)))"

definition load_file ::
  "int \<Rightarrow> string \<Rightarrow> KeyValueStore \<Rightarrow> rand_state \<Rightarrow> (KeyValueStore \<times> rand_state \<times> bool \<times> string option) exec" where
  "load_file now file st rs =
     (case readLine file of
        None \<Rightarrow> ret (st, rs, False, Some ''bad magic'')
      | Some (line, rest) \<Rightarrow>
          if line = ''MRDB1''
          then (case readLine rest of
                  None \<Rightarrow> ret (st, rs, False, Some ''no count'')
                | Some (line1, rest1) \<Rightarrow>
                    bind_exec (lift_res (stoi line1)) (\<lambda>count.
                    bind_exec (lift_res (load_str_loop ''trunc rec'' (nat count) rest1 st)) (\<lambda>r.
                      case r of
                        ReturnFalse msg st' \<Rightarrow> ret (st', rs, False, Some msg)
                      | Go (rest2, st') \<Rightarrow> ret (st', rs, True, None))))
          else if line \<noteq> ''MRDB2'' then ret (st, rs, False, Some ''bad magic'')
          else load_str_section now rest st rs)"

definition Rdb_load ::
  "RdbOptions \<Rightarrow> int \<Rightarrow> Disk \<Rightarrow> KeyValueStore \<Rightarrow> rand_state \<Rightarrow> (KeyValueStore \<times> rand_state \<times> bool \<times> string option) exec" where
  "Rdb_load opts now disk st rs =
     (if \<not> enabled opts then ret (st, rs, True, None)
      else case map_of (files disk) (path opts) of
             None \<Rightarrow> ret (st, rs, True, None)
           | Some file \<Rightarrow>
               if path opts \<in> set (unreadable disk) then ret (st, rs, False, Some ''read rdb'')
               else load_file now file st rs)"

section \<open>ReplicaClient\<close>

datatype RespType = kSimpleString | kError | kInteger | kBulkString | kArray | kNull

datatype RespValue = RespValue (rtype: RespType) (bulk: string) (array: "RespValue list")

record ServerConfig =
  port :: "16 word"
  bind_address :: string
  rdb :: RdbOptions

text \<open>
  What the replication thread works on: the global store, its own \<open>last_offset_\<close>, the
  disk and the random generator of the process.
\<close>

record Replica =
  g_store :: KeyValueStore
  last_offset_m :: int
  disk_m :: Disk
  rand_m :: rand_state

text \<open>
  The branch that reads \<open>OFFSET <n>\<close>; both \<open>substr\<close> and \<open>stoll\<close> sit in a \<open>try\<close> whose
  handler does nothing.
\<close>

definition apply_offset :: "string \<Rightarrow> Replica \<Rightarrow> Replica" where
  "apply_offset s rep =
     (if starts_with s ''OFFSET ''
      then (case bind_res (substr s 8 None) stoll of
              Inl e \<Rightarrow> rep
            | Inr n \<Rightarrow> rep\<lparr>last_offset_m := n\<rparr>)
      else rep)"

text \<open>
  The command branch for an array frame whose first element, in upper case, is \<open>cmd\<close>. The
  last arm is the source's \<open>else if (v->type == RespType::kSimpleString)\<close>.
\<close>

definition apply_command :: "int \<Rightarrow> RespValue \<Rightarrow> Replica \<Rightarrow> Replica exec" where
  "apply_command now v rep =
     (let cmd = map toupper (bulk (array v ! 0));
          n = length (array v);
          arg = (\<lambda>i. bulk (array v ! i))
      in if cmd = ''SET'' \<and> n = 3
         then ret (rep\<lparr>g_store := fst (set_kv (g_store rep) now (arg 1) (arg 2) None)\<rparr>)
         else if cmd = ''DEL'' \<and> n \<ge> 2
         then ret (rep\<lparr>g_store := fst (del (g_store rep) now (map bulk (drop 1 (array v))))\<rparr>)
         else if cmd = ''EXPIRE'' \<and> n = 3
         then bind_exec (lift_res (stoll (arg 2))) (\<lambda>secs.
                ret (rep\<lparr>g_store := fst (expire (g_store rep) now (arg 1) secs)\<rparr>))
         else if cmd = ''HSET'' \<and> n = 4
         then ret (rep\<lparr>g_store := fst (hset (g_store rep) now (arg 1) (arg 2) (arg 3))\<rparr>)
         else if cmd = ''HDEL'' \<and> n \<ge> 3
         then ret (rep\<lparr>g_store := fst (hdel (g_store rep) now (arg 1) (map bulk (drop 2 (array v))))\<rparr>)
         else if cmd = ''ZADD'' \<and> n = 4
         then bind_exec (lift_res (stod (arg 2))) (\<lambda>sc.
              bind_exec (zadd (g_store rep) now (rand_m rep) (arg 1) sc (arg 3)) (\<lambda>(st', rs', added).
                ret (rep\<lparr>g_store := st', rand_m := rs'\<rparr>)))
         else if cmd = ''ZREM'' \<and> n \<ge> 3
         then bind_exec (zrem (g_store rep) now (arg 1) (map bulk (drop 2 (array v)))) (\<lambda>(st', removed).
                ret (rep\<lparr>g_store := st'\<rparr>))
         else if rtype v = kSimpleString
         then ret (apply_offset (bulk v) rep)
         else ret rep)"

text \<open>
  The body of the inner \<open>while (true)\<close> for one parsed frame. The boolean tells whether the
  thread goes on; it stops when the snapshot file cannot be opened.
\<close>

definition handle_frame :: "ServerConfig \<Rightarrow> int \<Rightarrow> RespValue \<Rightarrow> Replica \<Rightarrow> (bool \<times> Replica) exec" where
  "handle_frame cfg now v rep =
     (if rtype v = kBulkString
      then (let ropts = (rdb cfg)\<lparr>enabled := True\<rparr>;
                p = path ropts
            in if p \<in> set (unwritable (disk_m rep)) then ret (False, rep)
               else
                 (let d = (disk_m rep)\<lparr>files := AList.update p (bulk v) (files (disk_m rep))\<rparr>
                  in bind_exec (Rdb_load ropts now d (g_store rep) (rand_m rep)) (\<lambda>(st', rs', ok, msg).
                       ret (True, rep\<lparr>g_store := st', rand_m := rs', disk_m := d\<rparr>))))
      else if rtype v = kArray
      then (if array v = [] then ret (True, rep)
            else bind_exec (apply_command now v rep) (\<lambda>rep'. ret (True, rep')))
      else ret (True, rep))"

section \<open>The program entry\<close>

text \<open>What the process has printed on standard output and on standard error.\<close>

record Console =
  stdout :: string
  stderr :: string

definition print_usage :: "string \<Rightarrow> Console \<Rightarrow> Console" where
  "print_usage argv0 con =
     con\<lparr>stdout := stdout con @ ''mini-redis usage:'' @ [newline] @ ''  '' @ argv0
                      @ '' [--port <port>] [--bind <ip>] [--config <file>]'' @ [newline]\<rparr>"

text \<open>
  \<open>loadConfigFromFile\<close> is only declared in the sources at hand; \<open>parse_args\<close> takes it as
  the argument \<open>loader\<close>: from the path and the configuration to the boolean returned, the
  configuration after the call and the message put in \<open>err\<close>.
\<close>

type_synonym config_loader = "string \<Rightarrow> ServerConfig \<Rightarrow> bool \<times> ServerConfig \<times> string"

function parse_args_loop ::
  "config_loader \<Rightarrow> string list \<Rightarrow> nat \<Rightarrow> ServerConfig \<Rightarrow> Console \<Rightarrow> (bool \<times> ServerConfig \<times> Console) res" where
  "parse_args_loop loader argv i cfg con =
     (if i < length argv
      then (let a = argv ! i
            in if a = ''--port'' \<and> i + 1 < length argv
               then (case stoi (argv ! (i + 1)) of
                       Inl e \<Rightarrow> Inl e
                     | Inr n \<Rightarrow> parse_args_loop loader argv (i + 2) (cfg\<lparr>port := word_of_int n\<rparr>) con)
               else if a = ''--bind'' \<and> i + 1 < length argv
               then parse_args_loop loader argv (i + 2) (cfg\<lparr>bind_address := argv ! (i + 1)\<rparr>) con
               else if a = ''--config'' \<and> i + 1 < length argv
               then (case loader (argv ! (i + 1)) cfg of
                       (ok, cfg', msg) \<Rightarrow>
                         if \<not> ok then Inr (False, cfg', con\<lparr>stderr := stderr con @ msg @ [newline]\<rparr>)
                         else parse_args_loop loader argv (i + 2) cfg' con)
               else if a = ''-h'' \<or> a = ''--help''
               then Inr (False, cfg, print_usage (argv ! 0) con)
               else Inr (False, cfg,
                         print_usage (argv ! 0)
                           (con\<lparr>stderr := stderr con @ ''Unknown argument: '' @ a @ [newline]\<rparr>)))
      else Inr (True, cfg, con))"
  by pat_completeness auto
termination
  by (relation "measure (\<lambda>(loader, argv, i, cfg, con). length argv - i)") auto

declare parse_args_loop.simps [simp del]

definition parse_args ::
  "config_loader \<Rightarrow> string list \<Rightarrow> ServerConfig \<Rightarrow> Console \<Rightarrow> (bool \<times> ServerConfig \<times> Console) res" where
  "parse_args loader argv cfg con = parse_args_loop loader argv 1 cfg con"

text \<open>
  The configuration with which the loop, started at index \<open>j\<close> with \<open>cfg\<close>, comes to the
  argument at index \<open>i\<close>; \<open>None\<close> when it returns or throws before it gets there. These are
  the three branches of the loop that go on.
\<close>

function arrives_with ::
  "config_loader \<Rightarrow> string list \<Rightarrow> nat \<Rightarrow> ServerConfig \<Rightarrow> nat \<Rightarrow> ServerConfig option" where
  "arrives_with loader argv j cfg i =
     (if j = i then Some cfg
      else if i < j \<or> length argv \<le> j then None
      else if argv ! j = ''--port'' \<and> j + 1 < length argv
      then (case stoi (argv ! (j + 1)) of
              Inl e \<Rightarrow> None
            | Inr n \<Rightarrow> arrives_with loader argv (j + 2) (cfg\<lparr>port := word_of_int n\<rparr>) i)
      else if argv ! j = ''--bind'' \<and> j + 1 < length argv
      then arrives_with loader argv (j + 2) (cfg\<lparr>bind_address := argv ! (j + 1)\<rparr>) i
      else if argv ! j = ''--config'' \<and> j + 1 < length argv
      then (case loader (argv ! (j + 1)) cfg of
              (ok, cfg', msg) \<Rightarrow> if ok then arrives_with loader argv (j + 2) cfg' i else None)
      else None)"
  by pat_completeness auto
termination
  by (relation "measure (\<lambda>(loader, argv, j, cfg, i). i - j)") auto

declare arrives_with.simps [simp del]

text \<open>
  \<open>main\<close>: the exit status is 1 when \<open>parse_args\<close> returns false, and otherwise whatever
  \<open>run_server\<close> returns on the configuration (the server itself is not part of the model).
\<close>

datatype exit_status = Exit int | ExitOfRunServer ServerConfig

definition main_prog ::
  "config_loader \<Rightarrow> ServerConfig \<Rightarrow> string list \<Rightarrow> (exit_status \<times> Console) res" where
  "main_prog loader config argv =
     bind_res (parse_args loader argv config \<lparr>stdout = [], stderr = []\<rparr>) (\<lambda>(ok, cfg, con).
       if \<not> ok then Inr (Exit 1, con) else Inr (ExitOfRunServer cfg, con))"

section \<open>Inputs used below\<close>

text \<open>The skiplist after \<open>insert(1, "a")\<close> on a fresh one, the node on level 1 only.\<close>

definition one_node :: Skiplist where
  "one_node =
     \<lparr>nodes = [Some \<lparr>score = 0, member = [], forward = (replicate 32 None)[0 := Some 1]\<rparr>,
               Some \<lparr>score = 1, member = ''a'', forward = [None]\<rparr>],
      head_m = 0, level_m = 1, length_m = 1\<rparr>"

text \<open>A store whose only key is the field map \<open>k\<close> with the field \<open>f\<close>.\<close>

definition one_hash :: KeyValueStore where
  "one_hash = fst (hset empty_store 0 ''k'' ''f'' ''v'')"

text \<open>A store whose only key is the ordered set \<open>z\<close> with the pair \<open>(1, "a")\<close>.\<close>

definition one_zset :: KeyValueStore where
  "one_zset =
     empty_store\<lparr>zmap_m :=
       [(''z'', \<lparr>use_skiplist = False, items = [(1, ''a'')], sl = None,
                member_to_score = [(''a'', 1)], z_expire_at_ms = - 1\<rparr>)]\<rparr>"

text \<open>
  The ordered set \<open>z\<close> with \<open>n\<close> pairs, kept as a vector: scores 0 to \<open>n - 1\<close>, the member
  of score \<open>i\<close> being \<open>i + 1\<close> letters \<open>a\<close>.
\<close>

definition zset_upto :: "nat \<Rightarrow> KeyValueStore" where
  "zset_upto n =
     empty_store\<lparr>zmap_m :=
       [(''z'', \<lparr>use_skiplist = False,
                items = map (\<lambda>i. (real i, replicate (Suc i) (CHR ''a''))) [0..<n],
                sl = None,
                member_to_score = map (\<lambda>i. (replicate (Suc i) (CHR ''a''), real i)) [0..<n],
                z_expire_at_ms = - 1\<rparr>)]\<rparr>"

text \<open>
  The first \<open>n\<close> of the commands \<open>ZADD z 0 a\<close>, \<open>ZADD z 1 aa\<close>, \<open>ZADD z 2 aaa\<close>, ...
  run on the empty store at time 0.
\<close>

fun zadd_run :: "nat \<Rightarrow> rand_state \<Rightarrow> (KeyValueStore \<times> rand_state) exec" where
  "zadd_run 0 rs = ret (empty_store, rs)"
| "zadd_run (Suc n) rs =
     bind_exec (zadd_run n rs) (\<lambda>(st, rs').
     bind_exec (zadd st 0 rs' ''z'' (real n) (replicate (Suc n) (CHR ''a''))) (\<lambda>(st', rs'', added).
       ret (st', rs'')))"

text \<open>A store whose only key is a scalar with a newline byte in its name.\<close>

definition newline_key_store :: KeyValueStore where
  "newline_key_store = fst (set_kv empty_store 0 (''a'' @ [newline] @ ''b'') ''x'' None)"

definition newline_key_file :: string where
  "newline_key_file =
     ''MRDB2'' @ [newline] @ ''STR 1'' @ [newline] @ ''3 a'' @ [newline] @ ''b 1 x -1'' @ [newline]
       @ ''HASH 0'' @ [newline] @ ''ZSET 0'' @ [newline]"

definition sample_options :: RdbOptions where
  "sample_options = \<lparr>enabled = True, dir = ''data'', filename = ''dump.rdb''\<rparr>"

definition sample_disk :: Disk where
  "sample_disk = \<lparr>files = [], unwritable = [], unreadable = [], write_budget = None\<rparr>"

text \<open>The text \<open>print_usage\<close> writes.\<close>

definition usage :: "string \<Rightarrow> string" where
  "usage argv0 =
     ''mini-redis usage:'' @ [newline] @ ''  '' @ argv0
       @ '' [--port <port>] [--bind <ip>] [--config <file>]'' @ [newline]"

text \<open>A configuration and a loader that finds no file, to run \<open>main\<close> on concrete arguments.\<close>

definition sample_config :: ServerConfig where
  "sample_config =
     \<lparr>port = 6379, bind_address = ''0.0.0.0'',
      rdb = \<lparr>enabled = False, dir = ''data'', filename = ''dump.rdb''\<rparr>\<rparr>"

definition no_config_file :: config_loader where
  "no_config_file file cfg = (False, cfg, ''cannot open '' @ file)"

section \<open>Properties\<close>

lemmas exec_defs =
  bind_res_def bind_exec_def lift_res_def ret_def fault_def at_index_def set_index_def

lemmas node_defs =
  get_forward_def set_forward_def node_at_def alloc_node_def new_node_def
  link_level_def point_at_head_def unlink_level_def delete_node_def

lemmas store_defs =
  empty_store_def hset_def hdel_def setHashExpireAtMs_def cleanupIfExpiredHash_def
  empty_HashRecord_def isExpiredHash_def del_def cleanupIfExpired_def exists_kv_def
  set_kv_def setWithExpireAtMs_def isExpired_def wrap_int64_def

subsection \<open>Skiplist\<close>

lemma threshold_value: "threshold = 16383"
  by (simp add: threshold_def kProbability_def)

lemma randomLevel_one: "randomLevel (sconst 65535) = (1, sconst 65535)"
  by (simp add: randomLevel_def rand_def randomLevel_loop.simps threshold_value)

lemma randomLevel_two: "randomLevel (0 ## sconst 65535) = (2, sconst 65535)"
  by (simp add: randomLevel_def rand_def randomLevel_loop.simps threshold_value kMaxLevel_def)

lemma insert_first:
  "insert_sl new_Skiplist 1 ''a'' (sconst 65535) = ret (one_node, sconst 65535, True)"
  by (simp add: insert_sl_def find_position_def new_Skiplist_def kMaxLevel_def advance.simps
        exec_defs node_defs randomLevel_one one_node_def)

lemma toVector_one_node: "toVector one_node = ret [(1, ''a'')]"
  by (simp add: toVector_def toVector_loop.simps exec_defs node_defs one_node_def)

text \<open>No call of \<open>erase\<close> returns true, whatever the skiplist holds.\<close>

lemma erase_never_true: "erase s sc m \<noteq> ret (s', True)"
  by (auto simp: erase_def exec_defs node_at_def split: option.splits sum.splits prod.splits)

text \<open>When the search ends at the end of the list, the test dereferences the null \<open>x\<close>.\<close>

lemma erase_at_end_null_deref: "erase new_Skiplist sc m = fault NullDeref"
  by (simp add: erase_def find_position_def new_Skiplist_def kMaxLevel_def advance.simps
        exec_defs node_defs)

text \<open>
  Claim C1. \<open>erase(score, member)\<close> returns true exactly when a node with that member and
  a score within \<open>1e-6\<close> was present; after a successful \<open>insert(s, m)\<close>, \<open>erase(s, m)\<close>
  returns true and removes the node. The code does not: on the skiplist that
  \<open>insert(1, "a")\<close> has just built, \<open>erase(1, "a")\<close> returns false and leaves the node in.
\<close>

theorem erase_after_insert_returns_false:
  "insert_sl new_Skiplist 1 ''a'' (sconst 65535) = ret (one_node, sconst 65535, True) \<and>
   toVector one_node = ret [(1, ''a'')] \<and>
   erase one_node 1 ''a'' = ret (one_node, False)"
  by (simp add: insert_first toVector_one_node)
     (simp add: erase_def find_position_def kMaxLevel_def advance.simps
        exec_defs node_defs one_node_def comparedLess_def kDelta_def)

text \<open>
  On a fresh skiplist (level 1), an insertion whose sampled level is 2 dereferences the
  null entry \<open>update[1]\<close>.
\<close>

lemma insert_new_level2: "insert_sl new_Skiplist sc m (0 ## sconst 65535) = fault NullDeref"
  by (simp add: insert_sl_def find_position_def new_Skiplist_def kMaxLevel_def advance.simps
        exec_defs node_defs randomLevel_two upt_rec)

text \<open>
  More generally, whenever the sampled level is above the current level, \<open>insert\<close> does
  not return true: the search leaves \<open>update[level_]\<close> null and the linking loop reaches
  that entry.
\<close>

lemma randomLevel_loop_bounds:
  "lvl \<le> kMaxLevel \<Longrightarrow>
   lvl \<le> fst (randomLevel_loop lvl r rs) \<and> fst (randomLevel_loop lvl r rs) \<le> kMaxLevel"
proof (induction lvl r rs rule: randomLevel_loop.induct)
  case (1 lvl r rs)
  show ?case
  proof (cases "r < threshold \<and> lvl < kMaxLevel")
    case True
    with "1.IH" have "lvl + 1 \<le> fst (randomLevel_loop (lvl + 1) (fst (rand rs) AND 0xFFFF) (snd (rand rs)))
        \<and> fst (randomLevel_loop (lvl + 1) (fst (rand rs) AND 0xFFFF) (snd (rand rs))) \<le> kMaxLevel"
      by simp
    with True show ?thesis
      by (subst (1 2) randomLevel_loop.simps) simp
  next
    case False
    with "1.prems" show ?thesis
      by (subst (1 2) randomLevel_loop.simps) auto
  qed
qed

lemma randomLevel_bounds: "1 \<le> fst (randomLevel rs) \<and> fst (randomLevel rs) \<le> kMaxLevel"
  using randomLevel_loop_bounds [of 1] by (simp add: randomLevel_def kMaxLevel_def)

lemma search_levels_above:
  "search_levels n s sc m x upd = Some (Inr (x', upd')) \<Longrightarrow>
   length upd' = length upd \<and> (\<forall>j\<ge>n. upd' ! j = upd ! j)"
proof (induction n arbitrary: x upd)
  case 0
  then show ?case by (simp add: ret_def)
next
  case (Suc n)
  from Suc.prems obtain y where
    rec: "search_levels n s sc m y (upd[n := Some y]) = Some (Inr (x', upd'))"
    by (auto simp: set_index_def split: option.splits sum.splits if_splits)
  from Suc.IH [OF rec] show ?case
    by auto
qed

lemma for_each_hits_fault:
  "k \<in> set ks \<Longrightarrow> (\<And>s. \<exists>e. body k s = Inl e) \<Longrightarrow> \<exists>e. for_each body ks s = Inl e"
proof (induction ks arbitrary: s)
  case Nil
  then show ?case by simp
next
  case (Cons i ks)
  show ?case
  proof (cases "body i s")
    case (Inl e)
    then show ?thesis by simp
  next
    case (Inr s')
    show ?thesis
    proof (cases "k = i")
      case True
      with Cons.prems(2) [of s] Inr show ?thesis by simp
    next
      case False
      with Cons.prems have "k \<in> set ks" by simp
      from Cons.IH [OF this Cons.prems(2)] Inr show ?thesis by simp
    qed
  qed
qed

lemma link_level_null:
  "k < length update \<Longrightarrow> update ! k = None \<Longrightarrow> link_level node update k s = Inl NullDeref"
  by (simp add: link_level_def at_index_def get_forward_def node_at_def bind_res_def)

lemma insert_above_level_never_true:
  assumes above: "level_m s < fst (randomLevel rs)"
  shows "insert_sl s sc m rs \<noteq> ret (s', rs'', True)"
proof
  assume ok: "insert_sl s sc m rs = ret (s', rs'', True)"
  obtain lvl rs1 where rl: "randomLevel rs = (lvl, rs1)"
    by (cases "randomLevel rs")
  with above randomLevel_bounds [of rs] have lvl: "level_m s < lvl" "1 \<le> lvl" "lvl \<le> 32"
    by (simp_all add: kMaxLevel_def)
  from ok obtain x update where
    fp: "find_position s sc m = Some (Inr (x, update))"
    by (auto simp: insert_sl_def bind_exec_def ret_def split: option.splits sum.splits)
  let ?k = "nat (level_m s)"
  from search_levels_above [OF fp [unfolded find_position_def]]
  have upd: "length update = 32" "update ! ?k = None"
    using lvl by (simp_all add: kMaxLevel_def)
  have k: "?k \<in> set [0..<nat lvl]" "?k < length update"
    using lvl upd by auto
  have "\<exists>e. for_each (link_level node update) [0..<nat lvl] s2 = Inl e" for node s2
    using k(1) by (rule for_each_hits_fault) (simp add: link_level_null k(2) upd(2))
  then have never: "for_each (link_level node update) [0..<nat lvl] s2 \<noteq> Inr s3" for node s2 s3
    by (metis sum.distinct(1))
  from ok fp rl lvl show False
    by (auto simp: never insert_sl_def bind_exec_def lift_res_def ret_def bind_res_def alloc_node_def Let_def
          split: option.splits sum.splits if_splits prod.splits)
qed

text \<open>
  Claim C4. \<open>insert(score, member)\<close> of a pair that is not yet present links one node at
  the sampled level, also when that level is above the current level of the skiplist, and
  returns true. The code does not: on the empty skiplist, whose level is 1, with the level
  2 sampled, \<open>insert(1, "a")\<close> dereferences a null pointer.
\<close>

theorem insert_above_level_null_deref:
  "level_m new_Skiplist = 1 \<and>
   fst (randomLevel (0 ## sconst 65535)) = 2 \<and>
   insert_sl new_Skiplist 1 ''a'' (0 ## sconst 65535) = fault NullDeref"
  by (simp add: insert_new_level2 randomLevel_two) (simp add: new_Skiplist_def)

subsection \<open>Store\<close>

text \<open>\<open>del\<close> never touches the field maps or the ordered sets.\<close>

lemma del_loop_only_scalars:
  "hmap_m (fst (del_loop now ks st n)) = hmap_m st \<and> zmap_m (fst (del_loop now ks st n)) = zmap_m st"
  by (induction ks arbitrary: st n) (auto simp: cleanupIfExpired_def Let_def split: option.splits)

lemma del_only_scalars:
  "hmap_m (fst (del st now ks)) = hmap_m st \<and> zmap_m (fst (del st now ks)) = zmap_m st"
  by (simp add: del_def del_loop_only_scalars)

text \<open>Two more ways to a stale index entry: \<open>zrem\<close> and \<open>setWithExpireAtMs\<close>.\<close>

lemma zrem_last_member_keeps_index_entry:
  "zrem (fst (setZSetExpireAtMs one_zset ''z'' 100)) 0 ''z'' [''a''] =
     ret (\<lparr>map_m = [], hmap_m = [], zmap_m = [], expire_index_m = [(''z'', 100)]\<rparr>, 1)"
  by (simp add: one_zset_def empty_store_def setZSetExpireAtMs_def zrem_def cleanupIfExpiredZSet_def
        isExpiredZSet_def exec_defs)

lemma setWithExpireAtMs_keeps_index_entry:
  "setWithExpireAtMs (fst (set_kv empty_store 0 ''k'' ''v'' (Some 100))) ''k'' ''v'' (- 1) =
     (\<lparr>map_m = [(''k'', \<lparr>value = ''v'', expire_at_ms = - 1\<rparr>)], hmap_m = [], zmap_m = [],
       expire_index_m = [(''k'', 100)]\<rparr>, True)"
  by (simp add: store_defs)

text \<open>
  \<open>expire\<close> with a time to live whose product with 1000 leaves the 64-bit range: the stamp
  wraps to a negative value, which goes into the record and into the index alike.
\<close>

lemma expire_wraps_negative:
  "expire (fst (set_kv empty_store 7 ''k'' ''v'' None)) 7 ''k'' 9223372036854775807 =
     (\<lparr>map_m = [(''k'', \<lparr>value = ''v'', expire_at_ms = - 993\<rparr>)], hmap_m = [], zmap_m = [],
       expire_index_m = [(''k'', - 993)]\<rparr>, True)"
  by (simp add: expire_def store_defs)

text \<open>
  Claim C2. In every reachable store the expiry index holds a key exactly when some family
  holds a record of that key with a finite expiry; in particular \<open>hdel\<close> removing the last
  field removes the index entry. The code does not: after \<open>hset k f v\<close>, an expiry at 100
  on the field map and \<open>hdel k f\<close>, no family holds \<open>k\<close> and the index still does.
\<close>

theorem hdel_last_field_keeps_index_entry:
  "hdel (fst (setHashExpireAtMs one_hash ''k'' 100)) 0 ''k'' [''f''] =
     (\<lparr>map_m = [], hmap_m = [], zmap_m = [], expire_index_m = [(''k'', 100)]\<rparr>, 1)"
  by (simp add: one_hash_def store_defs)

lemma one_hash_eq:
  "one_hash =
     \<lparr>map_m = [], hmap_m = [(''k'', \<lparr>fields_m = [(''f'', ''v'')], h_expire_at_ms = - 1\<rparr>)],
      zmap_m = [], expire_index_m = []\<rparr>"
  by (simp add: one_hash_def store_defs)

lemma exists_one_hash: "exists_kv one_hash 0 ''k'' = (one_hash, True)"
  by (simp add: one_hash_eq exists_kv_def cleanupIfExpired_def)

text \<open>
  Claim C3. \<open>del(ks)\<close> removes each listed key from whichever family holds it and counts
  it. The code does not: on the store whose only key is the field map \<open>k\<close>, \<open>del [k]\<close>
  returns 0 and leaves the field map where it is.
\<close>

theorem del_leaves_field_map_key:
  "del one_hash 0 [''k''] = (one_hash, 0) \<and>
   hmap_m one_hash = [(''k'', \<lparr>fields_m = [(''f'', ''v'')], h_expire_at_ms = - 1\<rparr>)]"
  by (simp add: one_hash_eq del_def cleanupIfExpired_def)

text \<open>The store \<open>one_zset\<close> is what \<open>zadd z 1 a\<close> builds from the empty store.\<close>

lemma zadd_builds_one_zset: "zadd empty_store 0 rs ''z'' 1 ''a'' = ret (one_zset, rs, 1)"
  by (simp add: zadd_def cleanupIfExpiredZSet_def empty_store_def empty_ZSetRecord_def
        add_to_vector_def lower_bound_def lower_bound_loop.simps kZsetVectorThreshold_def
        exec_defs one_zset_def)

text \<open>\<open>snapshotZSet\<close> never returns a vector.\<close>

lemma snapshotZSet_never_returns: "snapshotZSet st \<noteq> ret out"
  by (auto simp: snapshotZSet_def exec_defs split: option.splits sum.splits)

text \<open>
  Claim C6. \<open>snapshotZSet()\<close> returns one entry per ordered-set key, with the pairs in
  total order. The code does not: on the store holding the ordered set \<open>z\<close> the loop fills
  the local vector with the entry of \<open>z\<close>, and the function then ends without returning it.
\<close>

theorem snapshotZSet_flows_off_end:
  "snapshotZSet_loop (zmap_m one_zset) [] =
     ret [\<lparr>flat_key = ''z'', flat_items = [(1, ''a'')], flat_expire_at_ms = - 1\<rparr>] \<and>
   snapshotZSet one_zset = fault NoReturnValue"
  by (simp add: snapshotZSet_def one_zset_def exec_defs empty_store_def)

subsection \<open>The switch to the skiplist\<close>

lemma insert_all_level2:
  "vec \<noteq> [] \<Longrightarrow> insert_all vec new_Skiplist (0 ## sconst 65535) = fault NullDeref"
  by (cases vec) (simp_all add: insert_new_level2 fault_def)

lemma add_to_vector_level2:
  "length vec \<ge> kZsetVectorThreshold \<Longrightarrow>
   add_to_vector rec vec sc mem (0 ## sconst 65535) = fault NullDeref"
proof -
  assume long: "length vec \<ge> kZsetVectorThreshold"
  let ?it = "lower_bound vec (sc, mem)"
  let ?vec = "take ?it vec @ (sc, mem) # drop ?it vec"
  have "?vec \<noteq> []"
    by simp
  then have "insert_all ?vec new_Skiplist (0 ## sconst 65535) = fault NullDeref"
    by (rule insert_all_level2)
  moreover have "length ?vec > kZsetVectorThreshold"
    using long by (simp add: min_def)
  ultimately show ?thesis
    by (simp add: add_to_vector_def Let_def bind_exec_def fault_def)
qed

text \<open>The store with 128 pairs is what 128 \<open>ZADD\<close> commands build.\<close>

lemma lower_bound_loop_all_less:
  "first + len = length vec \<Longrightarrow> \<forall>i<length vec. item_less (vec ! i) v \<Longrightarrow>
   lower_bound_loop vec v first len = length vec"
proof (induction vec v first len rule: lower_bound_loop.induct)
  case (1 vec v first len)
  show ?case
  proof (cases "len > 0")
    case False
    with "1.prems" show ?thesis
      by (subst lower_bound_loop.simps) simp
  next
    case True
    with "1.prems" have mid: "item_less (vec ! (first + len div 2)) v"
      by simp
    have "lower_bound_loop vec v (first + len div 2 + 1) (len - len div 2 - 1) = length vec"
      using True mid "1.prems" by (intro "1.IH"(1)) auto
    with True mid show ?thesis
      by (subst lower_bound_loop.simps) simp
  qed
qed

lemma lower_bound_all_less:
  "\<forall>x\<in>set vec. item_less x v \<Longrightarrow> lower_bound vec v = length vec"
  by (simp add: lower_bound_def lower_bound_loop_all_less)

lemma zadd_first: "zadd empty_store 0 rs ''z'' 0 ''a'' = ret (zset_upto 1, rs, 1)"
  by (simp add: zadd_def cleanupIfExpiredZSet_def empty_store_def empty_ZSetRecord_def add_to_vector_def
      lower_bound_def lower_bound_loop.simps kZsetVectorThreshold_def exec_defs zset_upto_def)

lemma zadd_next:
  assumes "n < 128"
  shows "zadd (zset_upto n) 0 rs ''z'' (real n) (replicate (Suc n) (CHR ''a'')) = ret (zset_upto (Suc n), rs, 1)"
proof -
  let ?items = "map (\<lambda>i. (real i, replicate (Suc i) (CHR ''a''))) [0..<n]"
  let ?m2s = "map (\<lambda>i. (replicate (Suc i) (CHR ''a''), real i)) [0..<n]"
  have absent: "map_of ?m2s (replicate (Suc n) (CHR ''a'')) = None"
    by (auto simp: map_of_eq_None_iff dest!: arg_cong [where f = length])
  have "\<forall>x\<in>set ?items. item_less x (real n, replicate (Suc n) (CHR ''a''))"
    by (auto simp: item_less_def kDelta_def)
  then have lb: "lower_bound ?items (real n, replicate (Suc n) (CHR ''a'')) = n"
    by (simp add: lower_bound_all_less)
  show ?thesis
    using assms absent
    by (simp add: zadd_def zset_upto_def empty_store_def cleanupIfExpiredZSet_def isExpiredZSet_def
          add_to_vector_def lb kZsetVectorThreshold_def exec_defs del: replicate.simps)
qed

lemma zadd_run_upto: "0 < n \<Longrightarrow> n \<le> 128 \<Longrightarrow> zadd_run n rs = ret (zset_upto n, rs)"
proof (induction n)
  case 0
  then show ?case by simp
next
  case (Suc n)
  show ?case
  proof (cases "n = 0")
    case True
    then show ?thesis
      using zadd_first [of rs] by (simp add: exec_defs)
  next
    case False
    with Suc have "zadd_run n rs = ret (zset_upto n, rs)" and "n < 128"
      by simp_all
    then show ?thesis
      using zadd_next [of n rs] by (simp add: exec_defs del: replicate.simps)
  qed
qed

text \<open>
  A record in skiplist mode stays in that mode under every \<open>zadd\<close> and \<open>zrem\<close> that
  returns, as long as it is not removed (by expiry or by \<open>zrem\<close>).
\<close>

lemma zrem_loop_mode:
  "zrem_loop ms rec n = Some (Inr (rec', n')) \<Longrightarrow> use_skiplist rec' = use_skiplist rec"
proof (induction ms arbitrary: rec n)
  case Nil
  then show ?case by (simp add: ret_def)
next
  case (Cons m ms)
  from Cons.prems show ?case
    by (auto simp: Let_def split: option.splits sum.splits if_splits dest!: Cons.IH)
qed

lemma cleanupIfExpiredZSet_other:
  "map_of (zmap_m st) key = Some rec \<Longrightarrow> key' \<noteq> key \<or> \<not> isExpiredZSet rec now \<Longrightarrow>
   map_of (zmap_m (cleanupIfExpiredZSet key' now st)) key = Some rec"
  by (auto simp: cleanupIfExpiredZSet_def delete_conv' split: option.splits)

lemma zrem_keeps_mode:
  assumes "map_of (zmap_m st) key = Some rec" and "use_skiplist rec"
    and "zrem st now key' ms = ret (st', n)"
  shows "case map_of (zmap_m st') key of None \<Rightarrow> True | Some rec' \<Rightarrow> use_skiplist rec'"
proof (cases "key' = key \<and> isExpiredZSet rec now")
  case True
  with assms show ?thesis
    by (auto simp: zrem_def cleanupIfExpiredZSet_def delete_conv' ret_def split: option.splits)
next
  case False
  then have "map_of (zmap_m (cleanupIfExpiredZSet key' now st)) key = Some rec"
    using assms(1) by (intro cleanupIfExpiredZSet_other) auto
  with assms(2,3) show ?thesis
    by (auto simp: zrem_def Let_def bind_exec_def ret_def fault_def update_conv' delete_conv'
          split: option.splits sum.splits if_splits dest!: zrem_loop_mode)
qed

lemma zadd_keeps_mode:
  assumes "map_of (zmap_m st) key = Some rec" and "use_skiplist rec"
    and "key' \<noteq> key \<or> \<not> isExpiredZSet rec now"
    and "zadd st now rs key' sc mem = ret (st', rs', n)"
  shows "\<exists>rec'. map_of (zmap_m st') key = Some rec' \<and> use_skiplist rec'"
proof -
  have "map_of (zmap_m (cleanupIfExpiredZSet key' now st)) key = Some rec"
    using assms(1,3) by (rule cleanupIfExpiredZSet_other)
  with assms(2,4) show ?thesis
    by (auto simp: zadd_def Let_def bind_exec_def ret_def fault_def update_conv'
          split: option.splits sum.splits if_splits prod.splits)
qed

text \<open>
  Claim C7. Once a \<open>zadd\<close> takes the member count above 128 the record is in skiplist
  mode, all pairs re-inserted, and it never goes back. The code does not get there: after
  128 \<open>ZADD\<close> commands on \<open>z\<close>, the \<open>zadd\<close> of a 129th member starts the migration, and the
  first \<open>insert\<close> whose sampled level is above 1 dereferences a null pointer.
\<close>

theorem zadd_migration_null_deref:
  "zadd_run 128 (0 ## sconst 65535) = ret (zset_upto 128, 0 ## sconst 65535) \<and>
   zadd (zset_upto 128) 0 (0 ## sconst 65535) ''z'' 128 ''b'' = fault NullDeref"
proof -
  have "map_of (map (\<lambda>i. (replicate (Suc i) (CHR ''a''), real i)) [0..<128]) ''b'' = None"
    by (auto simp: map_of_eq_None_iff)
  then have "zadd (zset_upto 128) 0 (0 ## sconst 65535) ''z'' 128 ''b'' = fault NullDeref"
    by (simp add: zadd_def zset_upto_def empty_store_def cleanupIfExpiredZSet_def isExpiredZSet_def
          add_to_vector_level2 kZsetVectorThreshold_def bind_exec_def fault_def)
  then show ?thesis
    by (simp add: zadd_run_upto)
qed

subsection \<open>Snapshot files\<close>

lemma skip_spaces_stop: "\<not> (s < length line \<and> line ! s = space) \<Longrightarrow> skip_spaces line s = s"
  by (subst skip_spaces.simps) auto

lemma skip_spaces_step:
  "s < length line \<Longrightarrow> line ! s = space \<Longrightarrow> skip_spaces line s = skip_spaces line (s + 1)"
  by (subst skip_spaces.simps) simp

lemmas parse_defs =
  substr_def stoi_def stoll_def parse_integer_def parse_sign_def isspace_def is_digit_def
  digit_val_def digits_value_def bind_res_def nextTok_def skip_spaces_stop skip_spaces_step
  find_char_def space_def to_size_t_def size_t_add_def

lemma stoi_1: "stoi ''1'' = Inr 1"
  by (simp add: parse_defs)

lemma stoi_3: "stoi ''3'' = Inr 3"
  by (simp add: parse_defs)

lemma nextTok_first: "nextTok ''3 a'' 0 = Inr (''3'', 2)"
  by (simp add: parse_defs)

lemma nextTok_beyond: "nextTok ''3 a'' 6 = Inl OutOfRange"
  by (simp add: parse_defs)

text \<open>
  The record line that is left of \<open>3 a\<newline>b 1 x -1\<close> once it is cut at the newline: the key
  is read short and the next token starts beyond the end of the line.
\<close>

lemma parse_str_rec_cut: "parse_str_rec ''3 a'' = Inl OutOfRange"
  by (simp add: parse_str_rec_def nextTok_first stoi_3 nextTok_beyond bind_res_def substr_def
        to_size_t_def size_t_add_def)

lemma newline_key_store_eq:
  "newline_key_store =
     \<lparr>map_m = [(''a'' @ [newline] @ ''b'', \<lparr>value = ''x'', expire_at_ms = - 1\<rparr>)],
      hmap_m = [], zmap_m = [], expire_index_m = []\<rparr>"
  by (simp add: newline_key_store_def set_kv_def empty_store_def)

lemma save_chunks_newline_key:
  "write_chunks None (save_chunks (snapshot newline_key_store) (snapshotHash newline_key_store) []) []
     = (newline_key_file, None)"
  by (simp add: newline_key_store_eq snapshot_def snapshotHash_def save_chunks_def str_record_def
        to_string_nat.simps to_string_int_def newline_key_file_def)

lemma save_newline_key:
  "Rdb_save sample_options newline_key_store sample_disk = fault NoReturnValue"
  by (simp add: Rdb_save_def newline_key_store_eq snapshotZSet_def exec_defs path_def joinPath_def
        sample_options_def sample_disk_def)

lemma load_newline_key: "load_file 0 newline_key_file empty_store rs = fault OutOfRange"
  by (simp add: load_file_def newline_key_file_def readLine_def newline_def load_str_section_def
        starts_with_def substr_def stoi_1 exec_defs parse_str_rec_cut [unfolded newline_def])

text \<open>
  Claim C5. Saving any store with \<open>Rdb::save\<close> and loading the file into an empty store
  gives the same store, whatever bytes the keys and values hold, newlines included. The
  code does not: for the store whose only key is the scalar \<open>a\<newline>b\<close>, \<open>save\<close> stops in
  \<open>snapshotZSet\<close>, which returns nothing; and the file that its \<open>write\<close> calls would
  produce from the three populated snapshots makes \<open>load\<close> throw \<open>std::out_of_range\<close>.
\<close>

theorem save_load_newline_key_fails:
  "Rdb_save sample_options newline_key_store sample_disk = fault NoReturnValue \<and>
   snapshotZSet_loop (zmap_m newline_key_store) [] = ret [] \<and>
   write_chunks None (save_chunks (snapshot newline_key_store) (snapshotHash newline_key_store) []) []
     = (newline_key_file, None) \<and>
   load_file 0 newline_key_file empty_store (sconst 0) = fault OutOfRange"
  by (simp add: save_newline_key save_chunks_newline_key load_newline_key)
     (simp add: newline_key_store_eq ret_def)

subsection \<open>Replica\<close>

text \<open>
  If the branch were reached it would skip the first digit: the prefix has 7 bytes and the
  number is read from position 8.
\<close>

lemma stod_exponent: "stod ''1e3'' = Inr 1000"
  by (simp add: stod_def parse_exponent_def scale10_def parse_defs)

lemma apply_offset_skips_digit: "apply_offset ''OFFSET 42'' rep = rep\<lparr>last_offset_m := 2\<rparr>"
  by (simp add: apply_offset_def starts_with_def parse_defs)

text \<open>
  Claim C8. A simple-string frame \<open>OFFSET <n>\<close> on the replication stream sets
  \<open>last_offset\<close> to \<open>n\<close>. The code does not: a simple-string frame, \<open>OFFSET 42\<close> included,
  leaves the replica as it is, since the branch that reads it sits inside the branch for
  array frames.
\<close>

theorem simple_string_frame_ignored:
  "handle_frame cfg now (RespValue kSimpleString ''OFFSET 42'' []) rep = ret (True, rep)"
  by (simp add: handle_frame_def)

subsection \<open>Program entry\<close>

text \<open>
  Claim C9, as the spec has it: \<open>-h\<close> or \<open>--help\<close> prints the usage and the process exits
  with status 0. On the argument \<open>-h\<close> the status is 1.
\<close>

theorem help_exit_status_counterexample:
  "main_prog no_config_file sample_config [''tiny-redis'', ''-h'']
     = Inr (Exit 1, \<lparr>stdout = usage ''tiny-redis'', stderr = []\<rparr>) \<and>
   map_sum id fst (main_prog no_config_file sample_config [''tiny-redis'', ''-h'']) \<noteq> Inr (Exit 0)"
  by (simp add: main_prog_def parse_args_def parse_args_loop.simps print_usage_def usage_def bind_res_def)

text \<open>The loop goes from index \<open>j\<close> to index \<open>i\<close> without printing anything.\<close>

lemma arrives_with_loop:
  "arrives_with loader argv j cfg i = Some cfg' \<Longrightarrow>
   parse_args_loop loader argv j cfg con = parse_args_loop loader argv i cfg' con"
proof (induction loader argv j cfg i rule: arrives_with.induct)
  case (1 loader argv j cfg i)
  show ?case
  proof (cases "j = i")
    case True
    with "1.prems" show ?thesis
      by (subst (asm) arrives_with.simps) simp
  next
    case False
    with "1.prems" have inside: "j < length argv" "\<not> i < j"
      by (auto simp: arrives_with.simps [of loader argv j] split: if_splits)
    from False inside "1.prems" "1.IH" show ?thesis
      by (subst parse_args_loop.simps)
         (auto simp: arrives_with.simps [of loader argv j] Let_def split: if_splits sum.splits prod.splits)
  qed
qed

text \<open>What the loop does on \<open>-h\<close>, on \<open>--help\<close> and in its last branch.\<close>

lemma parse_args_loop_stops:
  assumes "i < length argv"
    and "argv ! i = ''-h'' \<or> argv ! i = ''--help'' \<or>
         argv ! i \<notin> {''--port'', ''--bind'', ''--config''} \<or> length argv \<le> i + 1"
  shows "parse_args_loop loader argv i cfg con =
     Inr (False, cfg,
          if argv ! i = ''-h'' \<or> argv ! i = ''--help''
          then print_usage (argv ! 0) con
          else print_usage (argv ! 0)
                 (con\<lparr>stderr := stderr con @ ''Unknown argument: '' @ argv ! i @ [newline]\<rparr>))"
  using assms by (subst parse_args_loop.simps) (auto simp: Let_def)

text \<open>
  Claim C9, amended. Whenever the scan of the arguments comes to an argument \<open>-h\<close> or
  \<open>--help\<close>, the program prints the usage text on standard output and exits with status
  1; whenever it comes to an unknown argument (one that is none of \<open>--port\<close>, \<open>--bind\<close>,
  \<open>--config\<close>, or one of these in last position, without its value), it prints
  \<open>Unknown argument: \<close> and the argument on standard error, the usage text on standard
  output, and exits with status 1.
\<close>

theorem help_or_unknown_argument_exit_status:
  assumes "arrives_with loader argv 1 config i = Some cfg"
    and "i < length argv"
    and "argv ! i = ''-h'' \<or> argv ! i = ''--help'' \<or>
         argv ! i \<notin> {''--port'', ''--bind'', ''--config''} \<or> length argv \<le> i + 1"
  shows "main_prog loader config argv =
     Inr (Exit 1,
          if argv ! i = ''-h'' \<or> argv ! i = ''--help''
          then \<lparr>stdout = usage (argv ! 0), stderr = []\<rparr>
          else \<lparr>stdout = usage (argv ! 0), stderr = ''Unknown argument: '' @ argv ! i @ [newline]\<rparr>)"
  using arrives_with_loop [OF assms(1), of "\<lparr>stdout = [], stderr = []\<rparr>"]
    parse_args_loop_stops [OF assms(2,3), of loader cfg "\<lparr>stdout = [], stderr = []\<rparr>"]
  by (simp add: main_prog_def parse_args_def bind_res_def print_usage_def usage_def)

theorem help_or_unknown_argument_exit_status_witness:
  "main_prog no_config_file sample_config [''tiny-redis'', ''--bind'', ''127.0.0.1'', ''--help'']
     = Inr (Exit 1, \<lparr>stdout = usage ''tiny-redis'', stderr = []\<rparr>) \<and>
   main_prog no_config_file sample_config [''tiny-redis'', ''--port'', ''6380'', ''--version'', ''-h'']
     = Inr (Exit 1, \<lparr>stdout = usage ''tiny-redis'',
                     stderr = ''Unknown argument: --version'' @ [newline]\<rparr>)"
proof -
  have bind: "arrives_with no_config_file [''tiny-redis'', ''--bind'', ''127.0.0.1'', ''--help''] 1
      sample_config 3 = Some (sample_config\<lparr>bind_address := ''127.0.0.1''\<rparr>)"
    by (simp add: arrives_with.simps)
  have "stoi ''6380'' = Inr 6380"
    by (simp add: parse_defs)
  then have port: "arrives_with no_config_file [''tiny-redis'', ''--port'', ''6380'', ''--version'', ''-h''] 1
      sample_config 3 = Some (sample_config\<lparr>port := 6380\<rparr>)"
    by (simp add: arrives_with.simps)
  show ?thesis
    using help_or_unknown_argument_exit_status [OF bind] help_or_unknown_argument_exit_status [OF port]
    by simp
qed

subsection \<open>listKeys\<close>

lemma sorted_remdups_adj_distinct:
  fixes xs :: "'a::linorder list"
  shows "sorted xs \<Longrightarrow> distinct (remdups_adj xs)"
proof (induction xs rule: remdups_adj.induct)
  case (3 x y xs)
  then show ?case by auto
qed simp_all

text \<open>
  Claim C10. For every store, \<open>listKeys\<close> returns the key names held by at least one of the
  three families, each exactly once and in ascending lexicographic order, also when a name
  occurs in more than one family.
\<close>

theorem listKeys_sorted_distinct_complete:
  "sorted (listKeys st) \<and> distinct (listKeys st) \<and>
   set (listKeys st) = fst ` set (map_m st) \<union> fst ` set (hmap_m st) \<union> fst ` set (zmap_m st)"
  by (simp add: listKeys_def Let_def sorted_remdups_adj_distinct image_Un Un_assoc)

end
